theory Spec2Isabelle
  imports Complex_Main
begin

section \<open>Go library functions used by the handlers\<close>

text \<open>
  The upload handlers \<open>FsStream\<close> and \<open>FsForm\<close> and the thumbnail routine
  \<open>generateVideoThumbnail\<close> live in one Go file of package \<open>handles\<close>. This theory
  embeds that file. Go strings are byte strings, so they are \<open>string\<close> here; a byte of a
  file is a \<open>nat\<close> below 256.
\<close>

subsection \<open>Package strings\<close>

definition HasPrefix :: "string \<Rightarrow> string \<Rightarrow> bool" where
  \<comment> \<open>\<open>strings.HasPrefix(s, prefix)\<close>\<close>
  "HasPrefix s pre = (take (length pre) s = pre)"

definition HasSuffix :: "string \<Rightarrow> string \<Rightarrow> bool" where
  "HasSuffix s suf = (length suf \<le> length s \<and> drop (length s - length suf) s = suf)"

definition TrimSuffix :: "string \<Rightarrow> string \<Rightarrow> string" where
  \<comment> \<open>\<open>strings.TrimSuffix\<close>: the suffix is cut once, when it is there.\<close>
  "TrimSuffix s suf = (if HasSuffix s suf then take (length s - length suf) s else s)"

definition is_space :: "char \<Rightarrow> bool" where
  \<comment> \<open>The one-byte white space of \<open>unicode.IsSpace\<close>: tab, line feed, vertical tab,
      form feed, carriage return and space. The white space that takes several bytes in
      UTF-8 is left out: the text that is trimmed is the output of a probe, which is a
      number in ASCII.\<close>
  "is_space c = (c \<in> set [CHR 0x09, CHR 0x0A, CHR 0x0B, CHR 0x0C, CHR 0x0D, CHR '' ''])"

definition TrimSpace :: "string \<Rightarrow> string" where
  "TrimSpace s = rev (dropWhile is_space (rev (dropWhile is_space s)))"

subsection \<open>Package path\<close>

fun split_slash :: "string \<Rightarrow> string list" where
  \<comment> \<open>The elements between the slashes of a path; there is always at least one.\<close>
  "split_slash [] = [[]]"
| "split_slash (c # cs) =
     (if c = CHR ''/'' then [] # split_slash cs
      else (case split_slash cs of
              [] \<Rightarrow> [[c]]
            | e # es \<Rightarrow> (c # e) # es))"

fun join_slash :: "string list \<Rightarrow> string" where
  "join_slash [] = []"
| "join_slash [e] = e"
| "join_slash (e # es) = e @ ''/'' @ join_slash es"

fun clean_elems :: "bool \<Rightarrow> string list \<Rightarrow> string list \<Rightarrow> string list" where
  \<comment> \<open>The element stack of \<open>path.Clean\<close>, kept in reverse: an empty element and
      \<open>.\<close> are dropped, \<open>..\<close> removes the element before it, is dropped at the root
      of a rooted path and is kept at the front of a relative one.\<close>
  "clean_elems rooted acc [] = rev acc"
| "clean_elems rooted acc (e # es) =
     (if e = [] \<or> e = ''.'' then clean_elems rooted acc es
      else if e = ''..'' then
        (case acc of
           [] \<Rightarrow> if rooted then clean_elems rooted [] es else clean_elems rooted [e] es
         | a # acc' \<Rightarrow>
             if a = ''..'' then clean_elems rooted (e # acc) es
             else clean_elems rooted acc' es)
      else clean_elems rooted (e # acc) es)"

definition Clean :: "string \<Rightarrow> string" where
  \<comment> \<open>\<open>path.Clean\<close>: the shortest equivalent path; the empty result is \<open>.\<close>.\<close>
  "Clean p =
     (let rooted = (take 1 p = ''/'');
          out = (if rooted then ''/'' else []) @ join_slash (clean_elems rooted [] (split_slash p))
      in if out = [] then ''.'' else out)"

definition Join :: "string \<Rightarrow> string \<Rightarrow> string" where
  \<comment> \<open>\<open>path.Join(a, b)\<close>: empty elements are ignored, the rest is joined with a slash
      and cleaned; two empty elements give the empty string.\<close>
  "Join a b =
     (case filter (\<lambda>e. e \<noteq> []) [a, b] of
        [] \<Rightarrow> []
      | es \<Rightarrow> Clean (join_slash es))"

definition Split :: "string \<Rightarrow> string \<times> string" where
  \<comment> \<open>\<open>path.Split\<close>: the path is cut after its last slash; with no slash the
      directory is empty.\<close>
  "Split p =
     (let file = rev (takeWhile (\<lambda>c. c \<noteq> CHR ''/'') (rev p))
      in (take (length p - length file) p, file))"

definition Ext :: "string \<Rightarrow> string" where
  \<comment> \<open>\<open>path.Ext\<close>: the suffix that starts at the last dot of the last element, or
      the empty string.\<close>
  "Ext p =
     (let file = rev (takeWhile (\<lambda>c. c \<noteq> CHR ''/'') (rev p));
          after = rev (takeWhile (\<lambda>c. c \<noteq> CHR ''.'') (rev file))
      in if length after = length file then [] else CHR ''.'' # after)"

subsection \<open>Decimal numbers\<close>

definition digit_char :: "nat \<Rightarrow> char" where
  "digit_char d = ''0123456789'' ! (d mod 10)"

function digits :: "nat \<Rightarrow> string" where
  "digits n = (if n < 10 then [digit_char n] else digits (n div 10) @ [digit_char (n mod 10)])"
  by pat_completeness auto
termination
  by (relation "measure id") auto

declare digits.simps [simp del]

definition zero_pad :: "nat \<Rightarrow> string \<Rightarrow> string" where
  "zero_pad w ds = replicate (w - length ds) CHR ''0'' @ ds"

definition fmt_d :: "nat \<Rightarrow> int \<Rightarrow> string" where
  \<comment> \<open>\<open>fmt.Sprintf("%0wd", i)\<close>: the sign counts towards the width, and the zeros stand
      between the sign and the digits.\<close>
  "fmt_d w i =
     (if i < 0 then CHR ''-'' # zero_pad (w - 1) (digits (nat (- i)))
      else zero_pad w (digits (nat i)))"

subsection \<open>float64\<close>

text \<open>
  A finite \<open>float64\<close> is the rational number it stands for. Every arithmetic operation
  of Go is the exact operation followed by \<open>fl\<close>, the rounding of IEEE 754 binary64 to
  the nearest value with a 53-bit significand, ties to the even significand. The model
  covers the normal range: it has no infinities, no NaN, no negative zero and no loss of
  precision for subnormal results, and the product and the difference of
  \<open>formatTime\<close> are rounded one after the other (no fused multiply-add).
\<close>

type_synonym float64 = rat

function bit_length :: "int \<Rightarrow> int" where
  \<comment> \<open>The number of binary digits of a positive integer.\<close>
  "bit_length n = (if n \<le> 0 then 0 else 1 + bit_length (n div 2))"
  by pat_completeness auto
termination
  by (relation "measure nat") auto

declare bit_length.simps [simp del]

definition pow2 :: "int \<Rightarrow> rat" where
  "pow2 e = (if 0 \<le> e then 2 ^ nat e else 1 / 2 ^ nat (- e))"

definition round_half_even :: "rat \<Rightarrow> int" where
  "round_half_even x =
     (let f = \<lfloor>x\<rfloor>; d = x - of_int f
      in if d < 1 / 2 then f
         else if 1 / 2 < d then f + 1
         else if even f then f else f + 1)"

definition ilog2 :: "rat \<Rightarrow> int" where
  \<comment> \<open>The integer part of the binary logarithm of a positive rational.\<close>
  "ilog2 a =
     (if 1 \<le> a then bit_length \<lfloor>a\<rfloor> - 1
      else - bit_length (\<lceil>1 / a\<rceil> - 1))"

definition fl :: "rat \<Rightarrow> float64" where
  "fl x =
     (if x = 0 then 0
      else let a = \<bar>x\<bar>;
               e = ilog2 a - 52;
               m = round_half_even (a / pow2 e)
           in (if x < 0 then - 1 else 1) * of_int m * pow2 e)"

definition fmul :: "float64 \<Rightarrow> float64 \<Rightarrow> float64" where
  "fmul x y = fl (x * y)"

definition fdiv :: "float64 \<Rightarrow> float64 \<Rightarrow> float64" where
  "fdiv x y = fl (x / y)"

definition fsub :: "float64 \<Rightarrow> float64 \<Rightarrow> float64" where
  "fsub x y = fl (x - y)"

definition float64_of_int :: "int \<Rightarrow> float64" where
  "float64_of_int i = fl (of_int i)"

definition int_of_float64 :: "float64 \<Rightarrow> int" where
  \<comment> \<open>The conversion \<open>int(x)\<close>: the fraction is discarded (truncation towards zero).
      Go defines it for values that fit \<open>int\<close>.\<close>
  "int_of_float64 x = (if 0 \<le> x then \<lfloor>x\<rfloor> else \<lceil>x\<rceil>)"

definition fmt_f :: "nat \<Rightarrow> float64 \<Rightarrow> string" where
  \<comment> \<open>\<open>fmt.Sprintf("%0w.3f", x)\<close>: three decimals, correctly rounded from the exact
      value (ties to even), padded with zeros to the width \<open>w\<close> after the sign.\<close>
  "fmt_f w x =
     (let ms = nat (round_half_even (\<bar>x\<bar> * 1000));
          num = digits (ms div 1000) @ ''.'' @ zero_pad 3 (digits (ms mod 1000))
      in if x < 0 then CHR ''-'' # zero_pad (w - 1) num else zero_pad w num)"

subsection \<open>Seek time\<close>

definition formatTime :: "float64 \<Rightarrow> string" where
  \<comment> \<open>\<open>formatTime\<close>: \<open>HH:MM:SS.mmm\<close> by \<open>fmt.Sprintf("%02d:%02d:%06.3f", h, m, s)\<close>.\<close>
  "formatTime seconds =
     (let h = int_of_float64 (fdiv seconds 3600);
          remainingSeconds = fsub seconds (fmul (float64_of_int h) 3600);
          m = int_of_float64 (fdiv remainingSeconds 60);
          s = fsub remainingSeconds (fmul (float64_of_int m) 60)
      in fmt_d 2 h @ '':'' @ fmt_d 2 m @ '':'' @ fmt_f 6 s)"

definition seekTime :: "float64 \<Rightarrow> float64 \<Rightarrow> float64" where
  \<comment> \<open>\<open>seekTime := duration * (percentage / 100.0)\<close> of
      \<open>extractVideoFrameAtPercentage\<close>.\<close>
  "seekTime duration percentage = fmul duration (fdiv percentage 100)"


section \<open>Errors, collaborators and effects\<close>

subsection \<open>Go error values\<close>

datatype err =
    ErrNotExist
      \<comment> \<open>an error for which \<open>errors.Is(err, os.ErrNotExist)\<close> holds\<close>
  | ErrOther string
      \<comment> \<open>any other error of a collaborator, with the text of \<open>Error()\<close>\<close>
  | ErrSyntax string
      \<comment> \<open>\<open>strconv.NumError\<close> of \<open>ParseInt\<close> with \<open>ErrSyntax\<close>, for this input\<close>
  | ErrRange string
      \<comment> \<open>\<open>strconv.NumError\<close> of \<open>ParseInt\<close> with \<open>ErrRange\<close>, for this input\<close>
  | ErrExec string
      \<comment> \<open>\<open>*exec.Error\<close>: the process could not be started; the text of \<open>Error()\<close>\<close>
  | ErrExit nat string
      \<comment> \<open>\<open>*exec.ExitError\<close>: the exit status, and the field \<open>Stderr\<close>\<close>
  | ErrDuration string
      \<comment> \<open>\<open>fmt.Errorf\<close> with the verb \<open>%v\<close> in \<open>extractVideoFrameAtPercentage\<close>: an
          error string that holds the text of its cause and nothing else of it\<close>
  | ErrOpenFile err
      \<comment> \<open>\<open>fmt.Errorf\<close> with \<open>%w\<close> in \<open>validateWebPFile\<close>: opening failed\<close>
  | ErrStatFile err
      \<comment> \<open>\<open>fmt.Errorf\<close> with \<open>%w\<close> in \<open>validateWebPFile\<close>: Stat failed\<close>
  | ErrEmptyFile
      \<comment> \<open>\<open>fmt.Errorf\<close> in \<open>validateWebPFile\<close>: the file is empty\<close>
  | ErrDecode err
      \<comment> \<open>\<open>fmt.Errorf\<close> with \<open>%w\<close> in \<open>validateWebPFile\<close>: decoding failed\<close>

definition msg_duration :: string where
  \<comment> \<open>The UTF-8 bytes of the format string of \<open>ErrDuration\<close>, up to its verb.\<close>
  "msg_duration =
     [CHR 0xE8, CHR 0x8E, CHR 0xB7, CHR 0xE5, CHR 0x8F, CHR 0x96, CHR 0xE8, CHR 0xA7, CHR 0x86,
      CHR 0xE9, CHR 0xA2, CHR 0x91, CHR 0xE6, CHR 0x97, CHR 0xB6, CHR 0xE9, CHR 0x95, CHR 0xBF,
      CHR 0xE5, CHR 0xA4, CHR 0xB1, CHR 0xE8, CHR 0xB4, CHR 0xA5, CHR 0x3A, CHR 0x20]"

definition msg_open :: string where
  "msg_open =
     [CHR 0xE6, CHR 0x89, CHR 0x93, CHR 0xE5, CHR 0xBC, CHR 0x80, CHR 0xE6, CHR 0x96, CHR 0x87,
      CHR 0xE4, CHR 0xBB, CHR 0xB6, CHR 0xE5, CHR 0xA4, CHR 0xB1, CHR 0xE8, CHR 0xB4, CHR 0xA5,
      CHR 0x3A, CHR 0x20]"

definition msg_stat :: string where
  "msg_stat =
     [CHR 0xE8, CHR 0x8E, CHR 0xB7, CHR 0xE5, CHR 0x8F, CHR 0x96, CHR 0xE6, CHR 0x96, CHR 0x87,
      CHR 0xE4, CHR 0xBB, CHR 0xB6, CHR 0xE4, CHR 0xBF, CHR 0xA1, CHR 0xE6, CHR 0x81, CHR 0xAF,
      CHR 0xE5, CHR 0xA4, CHR 0xB1, CHR 0xE8, CHR 0xB4, CHR 0xA5, CHR 0x3A, CHR 0x20]"

definition msg_empty :: string where
  "msg_empty =
     [CHR 0xE6, CHR 0x96, CHR 0x87, CHR 0xE4, CHR 0xBB, CHR 0xB6, CHR 0xE4, CHR 0xB8, CHR 0xBA,
      CHR 0xE7, CHR 0xA9, CHR 0xBA]"

definition msg_decode :: string where
  "msg_decode =
     [CHR 0x57, CHR 0x65, CHR 0x62, CHR 0x50, CHR 0xE8, CHR 0xA7, CHR 0xA3, CHR 0xE7, CHR 0xA0,
      CHR 0x81, CHR 0xE5, CHR 0xA4, CHR 0xB1, CHR 0xE8, CHR 0xB4, CHR 0xA5, CHR 0x3A, CHR 0x20]"

fun err_text :: "err \<Rightarrow> string" where
  \<comment> \<open>The method \<open>Error()\<close>. A \<open>NumError\<close> quotes its input; the quoting is written
      for input without characters to escape.\<close>
  "err_text ErrNotExist = ''file does not exist''"
| "err_text (ErrOther m) = m"
| "err_text (ErrSyntax n) =
     ''strconv.ParseInt: parsing '' @ [CHR 0x22] @ n @ [CHR 0x22] @ '': invalid syntax''"
| "err_text (ErrRange n) =
     ''strconv.ParseInt: parsing '' @ [CHR 0x22] @ n @ [CHR 0x22] @ '': value out of range''"
| "err_text (ErrExec m) = m"
| "err_text (ErrExit code errout) = ''exit status '' @ digits code"
| "err_text (ErrDuration m) = msg_duration @ m"
| "err_text (ErrOpenFile e) = msg_open @ err_text e"
| "err_text (ErrStatFile e) = msg_stat @ err_text e"
| "err_text ErrEmptyFile = msg_empty"
| "err_text (ErrDecode e) = msg_decode @ err_text e"

fun is_not_exist :: "err \<Rightarrow> bool" where
  \<comment> \<open>\<open>errors.Is(err, os.ErrNotExist)\<close>: the chain of \<open>%w\<close> wrappers is followed.\<close>
  "is_not_exist ErrNotExist = True"
| "is_not_exist (ErrOpenFile e) = is_not_exist e"
| "is_not_exist (ErrStatFile e) = is_not_exist e"
| "is_not_exist (ErrDecode e) = is_not_exist e"
| "is_not_exist _ = False"

subsection \<open>strconv.ParseInt\<close>

definition is_digit :: "char \<Rightarrow> bool" where
  "is_digit c = (c \<in> set ''0123456789'')"

definition digits_val :: "string \<Rightarrow> nat" where
  "digits_val ds = foldl (\<lambda>acc c. 10 * acc + (of_char c - 48)) 0 ds"

definition ParseInt :: "string \<Rightarrow> err + int" where
  \<comment> \<open>\<open>strconv.ParseInt(s, 10, 64)\<close>: an optional sign, then decimal digits only; the
      value has to fit 64 bits.\<close>
  "ParseInt s =
     (let neg = (take 1 s = ''-'');
          ds = (if take 1 s = ''-'' \<or> take 1 s = ''+'' then drop 1 s else s)
      in if ds = [] \<or> \<not> list_all is_digit ds then Inl (ErrSyntax s)
         else let n = int (digits_val ds); v = (if neg then - n else n)
              in if v < - (2 ^ 63) \<or> 2 ^ 63 \<le> v then Inl (ErrRange s) else Inr v)"

subsection \<open>Data of the handlers\<close>

datatype ctx = Background | RequestContext
  \<comment> \<open>\<open>context.Background()\<close>, which is never cancelled, and \<open>c.Request.Context()\<close>,
      which ends with the request\<close>

datatype user = User string

record obj =
  obj_name :: string
  obj_path :: string

datatype hash_type = MD5 | SHA1 | SHA256

datatype reader =
    RequestBody
  | FormReader
  | WrappedFormReader
  | TempFileReader string "nat list"
      \<comment> \<open>an open local file: its name, and the bytes it holds\<close>

record file_stream =
  fs_name :: string
  fs_size :: int
  fs_modified :: int
  fs_hashes :: "(hash_type \<times> string) list"
  fs_reader :: reader
  fs_mimetype :: string
  fs_as_task :: bool

record cmd =
  cmd_name :: string
  cmd_args :: "string list"

datatype fd = Stdout | Stderr

record proc_result =
  pr_start_err :: "string option"
    \<comment> \<open>the process could not be started\<close>
  pr_exit :: nat
    \<comment> \<open>the exit status of a process that ran\<close>
  pr_chunks :: "(fd \<times> string) list"
    \<comment> \<open>what it wrote to its standard output and standard error, in order\<close>
  pr_written :: "nat list option"
    \<comment> \<open>what it left in its output file, when it wrote it\<close>

datatype task = Task string

datatype resp =
    ErrorResp err nat
  | ErrorStrResp string nat
  | SuccessResp
  | SuccessRespTask task

datatype logmsg =
    LogGetVideoFailed err
  | LogEmptyAbsPath
  | LogCheckExistsFailed err
  | LogThumbExists string
  | LogCreateTempFailed err
  | LogRemoveTempFailed err
  | LogCoverFailed err
  | LogFrameFailed err
  | LogInvalidWebP err
  | LogMakeThumbDirFailed err
  | LogOpenTempFailed err
  | LogUploadFailed err
  | LogSuccess string string
  | LogCoverOutput string
  | LogFrameOutput string
  | LogMakeDirError string err

datatype event =
    EvGet ctx string
      \<comment> \<open>\<open>fs.Get(ctx, path, ...)\<close>\<close>
  | EvCreateTemp string
      \<comment> \<open>\<open>os.CreateTemp\<close> made this file\<close>
  | EvRun ctx cmd
      \<comment> \<open>a command of \<open>exec.CommandContext(ctx, ...)\<close> is run\<close>
  | EvOpen string
  | EvClose string
  | EvRemove string
      \<comment> \<open>\<open>os.Remove\<close>\<close>
  | EvMakeDir ctx string
  | EvPutDirectly ctx string file_stream
  | EvPutAsTask ctx string file_stream
  | EvLog logmsg
  | EvPanic
      \<comment> \<open>a method call on a nil object\<close>
  | EvGo ctx string user
      \<comment> \<open>\<open>go generateVideoThumbnail(ctx, path, user)\<close>\<close>
  | EvResp resp
  | EvGetStorage string
  | EvFormFile
      \<comment> \<open>\<open>c.FormFile\<close>: the multipart body is parsed\<close>
  | EvOpenForm
  | EvCloseForm
  | EvDrainBody
      \<comment> \<open>one byte of the request body is read and, if there was one, the rest is
          discarded\<close>
  | EvCloseBody

datatype io_call = OpenValidate | StatValidate | OpenUpload | StatUpload | RemoveTemp

text \<open>
  The collaborators of the file are not part of it: the virtual file system (\<open>fs\<close>),
  the operating system, the external tools, the image decoders registered with package
  \<open>image\<close>, and the clock. A \<open>world\<close> fixes what each of them answers. \<open>w_fault\<close> lets
  a call on the local disk fail for a reason outside the program.
\<close>

record world =
  w_get :: "string \<Rightarrow> obj option \<times> err option"
  w_create_temp :: "err + string"
  w_run :: "cmd \<Rightarrow> proc_result"
  w_parse_float :: "string \<Rightarrow> err + float64"
  w_decode :: "nat list \<Rightarrow> err option"
  w_make_dir :: "string \<Rightarrow> err option"
  w_put_directly :: "string \<Rightarrow> file_stream \<Rightarrow> err option"
  w_put_as_task :: "string \<Rightarrow> file_stream \<Rightarrow> task option \<times> err option"
  w_fault :: "io_call \<Rightarrow> err option"
  w_now :: int
  w_unescape :: "string \<Rightarrow> err + string"
  w_join_path :: "user \<Rightarrow> string \<Rightarrow> err + string"
  w_mime :: "string \<Rightarrow> string"
  w_no_upload :: "string \<Rightarrow> err + bool"

record state =
  files :: "string \<Rightarrow> nat list option"
    \<comment> \<open>the local disk: the bytes of each file\<close>
  trace :: "event list"
    \<comment> \<open>what has been done so far, oldest first\<close>

definition emit :: "event \<Rightarrow> state \<Rightarrow> state" where
  "emit e s = s\<lparr>trace := trace s @ [e]\<rparr>"

definition local_file :: "world \<Rightarrow> io_call \<Rightarrow> string \<Rightarrow> state \<Rightarrow> err + nat list" where
  \<comment> \<open>A call of the operating system on a local file (\<open>os.Open\<close>, \<open>Stat\<close>,
      \<open>os.Remove\<close>): it fails when the world says so or when the file is not there, and
      it finds the bytes of the file otherwise.\<close>
  "local_file W call path s =
     (case w_fault W call of
        Some e \<Rightarrow> Inl e
      | None \<Rightarrow> (case files s path of None \<Rightarrow> Inl ErrNotExist | Some bs \<Rightarrow> Inr bs))"

subsection \<open>External tools\<close>

definition started :: "proc_result \<Rightarrow> bool" where
  "started r = (pr_start_err r = None)"

definition stream_text :: "fd list \<Rightarrow> proc_result \<Rightarrow> string" where
  \<comment> \<open>What a buffer attached to these streams holds when the process is done.\<close>
  "stream_text fds r =
     (if started r then concat (map snd (filter (\<lambda>c. fst c \<in> set fds) (pr_chunks r))) else [])"

definition proc_err :: "proc_result \<Rightarrow> string \<Rightarrow> err option" where
  \<comment> \<open>The error of \<open>cmd.Run\<close>; \<open>errout\<close> is what the caller puts in \<open>Stderr\<close>.\<close>
  "proc_err r errout =
     (case pr_start_err r of
        Some m \<Rightarrow> Some (ErrExec m)
      | None \<Rightarrow> if pr_exit r \<noteq> 0 then Some (ErrExit (pr_exit r) errout) else None)"

definition CombinedOutput :: "proc_result \<Rightarrow> string \<times> err option" where
  \<comment> \<open>\<open>cmd.CombinedOutput()\<close>: one buffer takes both streams, and the error has no
      \<open>Stderr\<close>.\<close>
  "CombinedOutput r = (stream_text [Stdout, Stderr] r, proc_err r [])"

definition Output :: "proc_result \<Rightarrow> string \<times> err option" where
  \<comment> \<open>\<open>cmd.Output()\<close>: the standard output; the standard error goes into the
      \<open>Stderr\<close> of an \<open>ExitError\<close>.\<close>
  "Output r = (stream_text [Stdout] r, proc_err r (stream_text [Stderr] r))"

definition write_output :: "string \<Rightarrow> proc_result \<Rightarrow> state \<Rightarrow> state" where
  "write_output path r s =
     (case pr_written r of
        Some bs \<Rightarrow> if started r then s\<lparr>files := (files s)(path \<mapsto> bs)\<rparr> else s
      | None \<Rightarrow> s)"


section \<open>The thumbnail routine\<close>

subsection \<open>The commands\<close>

definition cover_cmd :: "string \<Rightarrow> string \<Rightarrow> cmd" where
  \<comment> \<open>The command of \<open>extractVideoCover\<close>.\<close>
  "cover_cmd videoPath outputPath =
     \<lparr>cmd_name = ''ffmpeg'',
      cmd_args =
        [''-i'', videoPath,
         ''-map'', ''0:v:0'',
         ''-vframes'', ''1'',
         ''-c:v'', ''libwebp'',
         ''-q:v'', ''80'',
         ''-lossless'', ''0'',
         ''-compression_level'', ''6'',
         ''-preset'', ''default'',
         ''-y'',
         outputPath]\<rparr>"

definition frame_cmd :: "string \<Rightarrow> string \<Rightarrow> string \<Rightarrow> cmd" where
  \<comment> \<open>The command of \<open>extractVideoFrameAtPercentage\<close>.\<close>
  "frame_cmd seekTimeStr videoPath outputPath =
     \<lparr>cmd_name = ''ffmpeg'',
      cmd_args =
        [''-ss'', seekTimeStr,
         ''-i'', videoPath,
         ''-vframes'', ''1'',
         ''-vf'', ''scale=320:-1'',
         ''-c:v'', ''libwebp'',
         ''-q:v'', ''80'',
         ''-lossless'', ''0'',
         ''-compression_level'', ''6'',
         ''-preset'', ''default'',
         ''-update'', ''1'',
         ''-y'',
         outputPath]\<rparr>"

definition probe_cmd :: "string \<Rightarrow> cmd" where
  \<comment> \<open>The command of \<open>getVideoDuration\<close>.\<close>
  "probe_cmd filePath =
     \<lparr>cmd_name = ''ffprobe'',
      cmd_args =
        [''-v'', ''error'',
         ''-show_entries'', ''format=duration'',
         ''-of'', ''default=noprint_wrappers=1:nokey=1'',
         filePath]\<rparr>"

subsection \<open>The functions\<close>

definition checkFileExists :: "world \<Rightarrow> ctx \<Rightarrow> string \<Rightarrow> state \<Rightarrow> (err + bool) \<times> state" where
  "checkFileExists W ctx path s =
     (let s1 = emit (EvGet ctx path) s
      in case w_get W path of
           (ob, Some e) \<Rightarrow> if is_not_exist e then (Inr False, s1) else (Inl e, s1)
         | (ob, None) \<Rightarrow> (Inr (ob \<noteq> None), s1))"

definition extractVideoCover ::
  "world \<Rightarrow> ctx \<Rightarrow> string \<Rightarrow> string \<Rightarrow> state \<Rightarrow> err option \<times> state" where
  "extractVideoCover W ctx videoPath outputPath s =
     (let c = cover_cmd videoPath outputPath;
          r = w_run W c;
          s1 = write_output outputPath r (emit (EvRun ctx c) s);
          (output, e) = CombinedOutput r
      in case e of
           Some e' \<Rightarrow> (Some e', emit (EvLog (LogCoverOutput output)) s1)
         | None \<Rightarrow> (None, s1))"

definition getVideoDuration ::
  "world \<Rightarrow> ctx \<Rightarrow> string \<Rightarrow> state \<Rightarrow> (err + float64) \<times> state" where
  "getVideoDuration W ctx filePath s =
     (let c = probe_cmd filePath;
          r = w_run W c;
          s1 = emit (EvRun ctx c) s;
          (output, e) = Output r
      in case e of
           Some e' \<Rightarrow> (Inl e', s1)
         | None \<Rightarrow>
             (case w_parse_float W (TrimSpace output) of
                Inl e' \<Rightarrow> (Inl e', s1)
              | Inr duration \<Rightarrow> (Inr duration, s1)))"

definition extractVideoFrameAtPercentage ::
  "world \<Rightarrow> ctx \<Rightarrow> string \<Rightarrow> string \<Rightarrow> float64 \<Rightarrow> state \<Rightarrow> err option \<times> state" where
  "extractVideoFrameAtPercentage W ctx videoPath outputPath percentage s =
     (case getVideoDuration W ctx videoPath s of
        (Inl e, s1) \<Rightarrow> (Some (ErrDuration (err_text e)), s1)
      | (Inr duration, s1) \<Rightarrow>
          (let seekTimeStr = formatTime (seekTime duration percentage);
               c = frame_cmd seekTimeStr videoPath outputPath;
               r = w_run W c;
               s2 = write_output outputPath r (emit (EvRun ctx c) s1);
               (output, e) = CombinedOutput r
           in case e of
                Some e' \<Rightarrow> (Some e', emit (EvLog (LogFrameOutput output)) s2)
              | None \<Rightarrow> (None, s2)))"

definition validateWebPFile :: "world \<Rightarrow> string \<Rightarrow> state \<Rightarrow> err option \<times> state" where
  \<comment> \<open>The file is closed on every way out once it is open (\<open>defer file.Close()\<close>).\<close>
  "validateWebPFile W path s =
     (case local_file W OpenValidate path s of
        Inl e \<Rightarrow> (Some (ErrOpenFile e), s)
      | Inr bs \<Rightarrow>
          (let s1 = emit (EvOpen path) s;
               res =
                 (case w_fault W StatValidate of
                    Some e \<Rightarrow> Some (ErrStatFile e)
                  | None \<Rightarrow>
                      if int (length bs) \<le> 0 then Some ErrEmptyFile
                      else (case w_decode W bs of
                              Some e \<Rightarrow> Some (ErrDecode e)
                            | None \<Rightarrow> None))
           in (res, emit (EvClose path) s1)))"

definition MakeDir :: "world \<Rightarrow> ctx \<Rightarrow> string \<Rightarrow> state \<Rightarrow> err option \<times> state" where
  "MakeDir W ctx path s =
     (let s1 = emit (EvMakeDir ctx path) s
      in case w_make_dir W path of
           Some e \<Rightarrow> (Some e, emit (EvLog (LogMakeDirError path e)) s1)
         | None \<Rightarrow> (None, s1))"

definition publishThumbnail ::
  "world \<Rightarrow> ctx \<Rightarrow> string \<Rightarrow> string \<Rightarrow> string \<Rightarrow> string \<Rightarrow> state \<Rightarrow> state" where
  \<comment> \<open>\<open>generateVideoThumbnail\<close> from the validation to its last line. The reader of
      the temporary file is closed on every way out once it is open
      (\<open>defer tempFileReader.Close()\<close>).\<close>
  "publishThumbnail W ctx tempFilePath targetThumbDir targetThumbName targetThumbPath s =
     (case validateWebPFile W tempFilePath s of
        (Some e, s1) \<Rightarrow> emit (EvLog (LogInvalidWebP e)) s1
      | (None, s1) \<Rightarrow>
          (case MakeDir W ctx targetThumbDir s1 of
             (Some e, s2) \<Rightarrow> emit (EvLog (LogMakeThumbDirFailed e)) s2
           | (None, s2) \<Rightarrow>
               (case local_file W OpenUpload tempFilePath s2 of
                  Inl e \<Rightarrow> emit (EvLog (LogOpenTempFailed e)) s2
                | Inr bs \<Rightarrow>
                    (let s3 = emit (EvOpen tempFilePath) s2;
                         fileSize =
                           (case local_file W StatUpload tempFilePath s3 of
                              Inl e \<Rightarrow> 0
                            | Inr bs' \<Rightarrow> int (length bs'));
                         uploadStream =
                           \<lparr>fs_name = targetThumbName,
                            fs_size = fileSize,
                            fs_modified = w_now W,
                            fs_hashes = [],
                            fs_reader = TempFileReader tempFilePath bs,
                            fs_mimetype = ''image/webp'',
                            fs_as_task = False\<rparr>;
                         s4 = emit (EvPutDirectly ctx targetThumbDir uploadStream) s3;
                         s5 =
                           (case w_put_directly W targetThumbDir uploadStream of
                              Some e \<Rightarrow> emit (EvLog (LogUploadFailed e)) s4
                            | None \<Rightarrow> emit (EvLog (LogSuccess tempFilePath targetThumbPath)) s4)
                     in emit (EvClose tempFilePath) s5))))"

definition extractThumbnail ::
  "world \<Rightarrow> ctx \<Rightarrow> string \<Rightarrow> string \<Rightarrow> state \<Rightarrow> bool \<times> state" where
  \<comment> \<open>\<open>generateVideoThumbnail\<close>, the two attempts: the cover first, and the frame at
      3 percent when the cover fails. The result says whether the routine goes on.\<close>
  "extractThumbnail W ctx videoAbsPath tempFilePath s =
     (case extractVideoCover W ctx videoAbsPath tempFilePath s of
        (Some e, s1) \<Rightarrow>
          (case extractVideoFrameAtPercentage W ctx videoAbsPath tempFilePath 3
                  (emit (EvLog (LogCoverFailed e)) s1) of
             (Some e', s2) \<Rightarrow> (False, emit (EvLog (LogFrameFailed e')) s2)
           | (None, s2) \<Rightarrow> (True, s2))
      | (None, s1) \<Rightarrow> (True, s1))"

definition removeTemp :: "world \<Rightarrow> string \<Rightarrow> state \<Rightarrow> state" where
  \<comment> \<open>The deferred function of \<open>generateVideoThumbnail\<close>: \<open>os.Remove\<close>, and a log
      line when it fails.\<close>
  "removeTemp W tempFilePath s =
     (let s1 = emit (EvRemove tempFilePath) s
      in case local_file W RemoveTemp tempFilePath s1 of
           Inl e \<Rightarrow> emit (EvLog (LogRemoveTempFailed e)) s1
         | Inr bs \<Rightarrow> s1\<lparr>files := (files s1)(tempFilePath := None)\<rparr>)"

definition targetThumbDir_of :: "string \<Rightarrow> string" where
  \<comment> \<open>\<open>targetThumbDir\<close> of \<open>generateVideoThumbnail\<close>: the directory
      \<open>.thumbnails\<close> beside the video.\<close>
  "targetThumbDir_of filePath = Join (fst (Split filePath)) ''.thumbnails''"

definition targetThumbName_of :: "string \<Rightarrow> string" where
  \<comment> \<open>\<open>targetThumbName\<close>: the name of the video without its extension, and
      \<open>.webp\<close>.\<close>
  "targetThumbName_of filePath =
     (let name = snd (Split filePath) in TrimSuffix name (Ext name) @ ''.webp'')"

definition targetThumbPath_of :: "string \<Rightarrow> string" where
  \<comment> \<open>\<open>targetThumbPath\<close>\<close>
  "targetThumbPath_of filePath = Join (targetThumbDir_of filePath) (targetThumbName_of filePath)"

definition generateVideoThumbnail :: "world \<Rightarrow> ctx \<Rightarrow> string \<Rightarrow> user \<Rightarrow> state \<Rightarrow> state" where
  \<comment> \<open>The removal of the temporary file is deferred right after the file is made, so
      it ends every run that made one. A lookup that gives neither an object nor an error
      makes \<open>fileObj.GetPath()\<close> a call on nil.\<close>
  "generateVideoThumbnail W ctx filePath usr s =
     (let s1 = emit (EvGet ctx filePath) s
      in case w_get W filePath of
           (fileObj, Some e) \<Rightarrow> emit (EvLog (LogGetVideoFailed e)) s1
         | (None, None) \<Rightarrow> emit EvPanic s1
         | (Some fileObj, None) \<Rightarrow>
             (let videoAbsPath = obj_path fileObj
              in if videoAbsPath = [] then emit (EvLog LogEmptyAbsPath) s1
                 else
                   (let targetThumbDir = targetThumbDir_of filePath;
                        targetThumbName = targetThumbName_of filePath;
                        targetThumbPath = targetThumbPath_of filePath
                    in case checkFileExists W ctx targetThumbPath s1 of
                         (Inl e, s2) \<Rightarrow> emit (EvLog (LogCheckExistsFailed e)) s2
                       | (Inr exists, s2) \<Rightarrow>
                           if exists then emit (EvLog (LogThumbExists targetThumbPath)) s2
                           else
                             (case w_create_temp W of
                                Inl e \<Rightarrow> emit (EvLog (LogCreateTempFailed e)) s2
                              | Inr tempFilePath \<Rightarrow>
                                  (let s3 = emit (EvCreateTemp tempFilePath)
                                              (s2\<lparr>files := (files s2)(tempFilePath \<mapsto> [])\<rparr>);
                                       (ok, s4) = extractThumbnail W ctx videoAbsPath tempFilePath s3;
                                       s5 = (if ok
                                             then publishThumbnail W ctx tempFilePath targetThumbDir
                                                    targetThumbName targetThumbPath s4
                                             else s4)
                                   in removeTemp W tempFilePath s5)))))"


section \<open>The upload handlers\<close>

record form_file =
  ff_size :: int
    \<comment> \<open>\<open>file.Size\<close>\<close>
  ff_content_type :: string
    \<comment> \<open>\<open>file.Header.Get("Content-Type")\<close>\<close>
  ff_open_err :: "err option"
    \<comment> \<open>the error of \<open>file.Open()\<close>\<close>

record request =
  rq_headers :: "string \<Rightarrow> string option"
  rq_user :: user
    \<comment> \<open>the user the middleware stored in the request context\<close>
  rq_form_file :: "err + form_file"
    \<comment> \<open>what \<open>c.FormFile("file")\<close> gives\<close>

definition GetHeader :: "request \<Rightarrow> string \<Rightarrow> string" where
  \<comment> \<open>\<open>c.GetHeader(key)\<close>: the empty string when the header is absent.\<close>
  "GetHeader c key = (case rq_headers c key of None \<Rightarrow> [] | Some v \<Rightarrow> v)"

definition getLastModified :: "world \<Rightarrow> request \<Rightarrow> int" where
  \<comment> \<open>A time is its number of milliseconds since the epoch.\<close>
  "getLastModified W c =
     (case ParseInt (GetHeader c ''Last-Modified'') of
        Inl e \<Rightarrow> w_now W
      | Inr lastModifiedMillisecond \<Rightarrow> lastModifiedMillisecond)"

definition hash_headers :: "request \<Rightarrow> (hash_type \<times> string) list" where
  \<comment> \<open>The map \<open>h\<close> of both handlers: a hash is kept when its header is not empty.\<close>
  "hash_headers c =
     filter (\<lambda>kv. snd kv \<noteq> [])
       [(MD5, GetHeader c ''X-File-Md5''),
        (SHA1, GetHeader c ''X-File-Sha1''),
        (SHA256, GetHeader c ''X-File-Sha256'')]"

definition transport_cleanup :: "event list \<Rightarrow> event list" where
  \<comment> \<open>The deferred function both handlers start with: what is left of the request
      body is read and discarded, and the body is closed.\<close>
  "transport_cleanup t = t @ [EvDrainBody, EvCloseBody]"

definition success_resp :: "task option \<Rightarrow> resp" where
  \<comment> \<open>The end of both handlers: \<open>t == nil\<close> answers without a task.\<close>
  "success_resp t = (case t of None \<Rightarrow> SuccessResp | Some t' \<Rightarrow> SuccessRespTask t')"

definition FsStream_upload :: "world \<Rightarrow> request \<Rightarrow> string \<Rightarrow> event list" where
  \<comment> \<open>\<open>FsStream\<close> from the parsing of the file information to its last line, for the
      resolved path.\<close>
  "FsStream_upload W c path =
     (let asTask = (GetHeader c ''As-Task'' = ''true'');
          usr = rq_user c;
          (dir, name) = Split path;
          sizeStr = (if GetHeader c ''Content-Length'' = [] then ''0''
                     else GetHeader c ''Content-Length'')
      in case ParseInt sizeStr of
           Inl e \<Rightarrow> [EvResp (ErrorResp e 400)]
         | Inr sz \<Rightarrow>
             (let mimetype = (if length (GetHeader c ''Content-Type'') = 0
                              then w_mime W name
                              else GetHeader c ''Content-Type'');
                  s = \<lparr>fs_name = name,
                       fs_size = sz,
                       fs_modified = getLastModified W c,
                       fs_hashes = hash_headers c,
                       fs_reader = RequestBody,
                       fs_mimetype = mimetype,
                       fs_as_task = asTask\<rparr>;
                  (t, e) = (if asTask then w_put_as_task W dir s
                            else (None, w_put_directly W dir s));
                  put = (if asTask then EvPutAsTask RequestContext dir s
                         else EvPutDirectly RequestContext dir s)
              in case e of
                   Some e' \<Rightarrow> [put, EvResp (ErrorResp e' 500)]
                 | None \<Rightarrow>
                     put
                     # (if HasPrefix mimetype ''video/''
                        then [EvGo Background path usr] else [])
                     @ [EvResp (success_resp t)]))"

definition FsStream :: "world \<Rightarrow> request \<Rightarrow> event list" where
  "FsStream W c = transport_cleanup
     (case w_unescape W (GetHeader c ''File-Path'') of
        Inl e \<Rightarrow> [EvResp (ErrorResp e 400)]
      | Inr path0 \<Rightarrow>
          (let overwrite = (GetHeader c ''Overwrite'' \<noteq> ''false'');
               usr = rq_user c
           in case w_join_path W usr path0 of
                Inl e \<Rightarrow> [EvResp (ErrorResp e 403)]
              | Inr path \<Rightarrow>
                  if \<not> overwrite
                  then EvGet RequestContext path
                       # (if fst (w_get W path) \<noteq> None
                          then [EvResp (ErrorStrResp ''file exists'' 403)]
                          else FsStream_upload W c path)
                  else FsStream_upload W c path))"

definition FsForm_upload :: "world \<Rightarrow> request \<Rightarrow> string \<Rightarrow> event list" where
  \<comment> \<open>\<open>FsForm\<close> from the lookup of the storage to its last line, for the resolved
      path. The form file is closed when the function returns (\<open>defer f.Close()\<close>).\<close>
  "FsForm_upload W c path =
     EvGetStorage path #
     (let asTask = (GetHeader c ''As-Task'' = ''true'')
      in case w_no_upload W path of
           Inl e \<Rightarrow> [EvResp (ErrorResp e 400)]
         | Inr noUpload \<Rightarrow>
             if noUpload
             then [EvResp (ErrorStrResp ''Current storage doesn't support upload'' 405)]
             else
               (case rq_form_file c of
                  Inl e \<Rightarrow> [EvFormFile, EvResp (ErrorResp e 500)]
                | Inr file \<Rightarrow>
                    (case ff_open_err file of
                       Some e \<Rightarrow> [EvFormFile, EvOpenForm, EvResp (ErrorResp e 500)]
                     | None \<Rightarrow>
                         (let (dir, name) = Split path;
                              mimetype = (if length (ff_content_type file) = 0
                                          then w_mime W name
                                          else ff_content_type file);
                              s = \<lparr>fs_name = name,
                                   fs_size = ff_size file,
                                   fs_modified = getLastModified W c,
                                   fs_hashes = hash_headers c,
                                   fs_reader = (if asTask then WrappedFormReader
                                                else FormReader),
                                   fs_mimetype = mimetype,
                                   fs_as_task = asTask\<rparr>;
                              (t, e) = (if asTask then w_put_as_task W dir s
                                        else (None, w_put_directly W dir s));
                              put = (if asTask then EvPutAsTask RequestContext dir s
                                     else EvPutDirectly RequestContext dir s)
                          in case e of
                               Some e' \<Rightarrow>
                                 [EvFormFile, EvOpenForm, put,
                                  EvResp (ErrorResp e' 500), EvCloseForm]
                             | None \<Rightarrow>
                                 [EvFormFile, EvOpenForm, put,
                                  EvResp (success_resp t), EvCloseForm]))))"

definition FsForm :: "world \<Rightarrow> request \<Rightarrow> event list" where
  "FsForm W c = transport_cleanup
     (case w_unescape W (GetHeader c ''File-Path'') of
        Inl e \<Rightarrow> [EvResp (ErrorResp e 400)]
      | Inr path0 \<Rightarrow>
          (let overwrite = (GetHeader c ''Overwrite'' \<noteq> ''false'');
               usr = rq_user c
           in case w_join_path W usr path0 of
                Inl e \<Rightarrow> [EvResp (ErrorResp e 403)]
              | Inr path \<Rightarrow>
                  if \<not> overwrite
                  then EvGet RequestContext path
                       # (if fst (w_get W path) \<noteq> None
                          then [EvResp (ErrorStrResp ''file exists'' 403)]
                          else FsForm_upload W c path)
                  else FsForm_upload W c path))"

section \<open>Observing a run\<close>

text \<open>
  The thumbnail routine returns nothing: what it did is the trace it leaves and the
  local disk it leaves. The definitions of this section select events of a trace and
  name the states a run goes through; the properties are stated with them.
\<close>

definition start :: "(string \<Rightarrow> nat list option) \<Rightarrow> state" where
  \<comment> \<open>The state a run starts in: a local disk, and nothing done yet.\<close>
  "start F = \<lparr>files = F, trace = []\<rparr>"

fun is_run :: "event \<Rightarrow> bool" where
  "is_run (EvRun c x) = True"
| "is_run _ = False"

fun is_write :: "event \<Rightarrow> bool" where
  \<comment> \<open>The calls that change the storage.\<close>
  "is_write (EvPutDirectly c d st) = True"
| "is_write (EvPutAsTask c d st) = True"
| "is_write (EvMakeDir c d) = True"
| "is_write _ = False"

fun is_create :: "event \<Rightarrow> bool" where
  "is_create (EvCreateTemp p) = True"
| "is_create _ = False"

fun is_log :: "event \<Rightarrow> bool" where
  "is_log (EvLog m) = True"
| "is_log _ = False"

fun run_cmd :: "event \<Rightarrow> cmd list" where
  "run_cmd (EvRun c x) = [x]"
| "run_cmd _ = []"

fun is_go :: "event \<Rightarrow> bool" where
  "is_go (EvGo c p u) = True"
| "is_go _ = False"

fun is_get :: "event \<Rightarrow> bool" where
  "is_get (EvGet c p) = True"
| "is_get _ = False"

definition not_exists_check :: "event \<Rightarrow> bool" where
  \<comment> \<open>Neither the lookup of the destination nor the answer that it exists.\<close>
  "not_exists_check e = (\<not> is_get e \<and> e \<noteq> EvResp (ErrorStrResp ''file exists'' 403))"

definition failed :: "proc_result \<Rightarrow> bool" where
  \<comment> \<open>The process could not be started, or it ended with a status other than 0.\<close>
  "failed r = (pr_start_err r \<noteq> None \<or> pr_exit r \<noteq> 0)"

definition runs :: "event list \<Rightarrow> cmd list" where
  \<comment> \<open>The commands a trace ran, in order.\<close>
  "runs t = concat (map run_cmd t)"

definition effects :: "event list \<Rightarrow> event list" where
  \<comment> \<open>A trace without its log lines.\<close>
  "effects t = filter (\<lambda>e. \<not> is_log e) t"


definition staged :: "ctx \<Rightarrow> string \<Rightarrow> string \<Rightarrow> (string \<Rightarrow> nat list option) \<Rightarrow> state" where
  \<comment> \<open>The state of a run right after it has made its temporary file.\<close>
  "staged ctx fp p F =
     \<lparr>files = F(p \<mapsto> []),
      trace = [EvGet ctx fp, EvGet ctx (targetThumbPath_of fp), EvCreateTemp p]\<rparr>"

definition after_staging :: "world \<Rightarrow> ctx \<Rightarrow> string \<Rightarrow> string \<Rightarrow> string \<Rightarrow> state \<Rightarrow> state" where
  \<comment> \<open>The run from there to the deferred removal of the temporary file.\<close>
  "after_staging W ctx fp v p s3 =
     (if fst (extractThumbnail W ctx v p s3)
      then publishThumbnail W ctx p (targetThumbDir_of fp) (targetThumbName_of fp)
             (targetThumbPath_of fp) (snd (extractThumbnail W ctx v p s3))
      else snd (extractThumbnail W ctx v p s3))"

section \<open>Example worlds\<close>

text \<open>
  A world in which the video \<open>/videos/movie.mp4\<close> is stored and has no thumbnail yet,
  the cover extraction fails, the probe reports 100 seconds and the frame extraction
  writes four bytes that the decoder accepts.
\<close>

definition video_obj :: obj where
  "video_obj = \<lparr>obj_name = ''movie.mp4'', obj_path = ''/data/videos/movie.mp4''\<rparr>"

definition ok_result :: proc_result where
  "ok_result = \<lparr>pr_start_err = None, pr_exit = 0, pr_chunks = [], pr_written = None\<rparr>"

definition world0 :: world where
  "world0 =
     \<lparr>w_get = (\<lambda>p. if p = ''/videos/movie.mp4'' then (Some video_obj, None)
                    else (None, Some ErrNotExist)),
      w_create_temp = Inr ''/tmp/video_thumb_1.webp'',
      w_run = (\<lambda>c. if cmd_name c = ''ffprobe''
                      then ok_result\<lparr>pr_chunks := [(Stdout, ''100.000000'' @ [CHR 0x0A])]\<rparr>
                    else if take 1 (cmd_args c) = [''-ss'']
                      then ok_result\<lparr>pr_chunks := [(Stderr, ''frame=1'')],
                                     pr_written := Some [82, 73, 70, 70]\<rparr>
                    else ok_result\<lparr>pr_exit := 1, pr_chunks := [(Stderr, ''no stream'')]\<rparr>),
      w_parse_float = (\<lambda>s. if s = ''100.000000'' then Inr 100 else Inl (ErrOther ''invalid syntax'')),
      w_decode = (\<lambda>bs. if bs = [82, 73, 70, 70] then None else Some (ErrOther ''image: unknown format'')),
      w_make_dir = (\<lambda>p. None),
      w_put_directly = (\<lambda>d s. None),
      w_put_as_task = (\<lambda>d s. (Some (Task ''t1''), None)),
      w_fault = (\<lambda>c. None),
      w_now = 1700000000000,
      w_unescape = Inr,
      w_join_path = (\<lambda>u p. Inr p),
      w_mime = (\<lambda>n. ''application/octet-stream''),
      w_no_upload = (\<lambda>p. Inr False)\<rparr>"

definition video_request :: request where
  "video_request =
     \<lparr>rq_headers = [''File-Path'' \<mapsto> ''/videos/movie.mp4'', ''Content-Type'' \<mapsto> ''video/mp4'',
                     ''Content-Length'' \<mapsto> ''4''],
      rq_user = User ''alice'',
      rq_form_file = Inr \<lparr>ff_size = 4, ff_content_type = ''video/mp4'', ff_open_err = None\<rparr>\<rparr>"

definition tmp0 :: string where
  "tmp0 = ''/tmp/video_thumb_1.webp''"

definition thumb_stream :: file_stream where
  "thumb_stream =
     \<lparr>fs_name = ''movie.webp'', fs_size = 4, fs_modified = 1700000000000, fs_hashes = [],
      fs_reader = TempFileReader ''/tmp/video_thumb_1.webp'' [82, 73, 70, 70],
      fs_mimetype = ''image/webp'', fs_as_task = False\<rparr>"

text \<open>
  Worlds in which the run fails later: the decoder rejects the frame, the thumbnail
  directory cannot be made, the upload fails.
\<close>

definition world_invalid :: world where
  "world_invalid = world0\<lparr>w_decode := (\<lambda>bs. Some (ErrOther ''image: unknown format''))\<rparr>"

definition world_nodir :: world where
  "world_nodir = world0\<lparr>w_make_dir := (\<lambda>p. Some (ErrOther ''permission denied''))\<rparr>"

definition world_noput :: world where
  "world_noput = world0\<lparr>w_put_directly := (\<lambda>d s. Some (ErrOther ''storage is full''))\<rparr>"

definition run_in :: "world \<Rightarrow> state" where
  "run_in W = generateVideoThumbnail W Background ''/videos/movie.mp4'' (User ''alice'')
                (start Map.empty)"

text \<open>
  The same world with the thumbnail already stored; a world in which every tool fails
  after writing to both of its streams; a local disk with an empty file, a text file and
  a file the decoder accepts; and the request with the header \<open>Overwrite: false\<close>.
\<close>

definition thumb_obj :: obj where
  "thumb_obj = \<lparr>obj_name = ''movie.webp'', obj_path = ''/data/videos/.thumbnails/movie.webp''\<rparr>"

definition world_thumb :: world where
  "world_thumb =
     world0\<lparr>w_get := (\<lambda>p. if p = ''/videos/movie.mp4'' then (Some video_obj, None)
                          else if p = ''/videos/.thumbnails/movie.webp'' then (Some thumb_obj, None)
                          else (None, Some ErrNotExist))\<rparr>"


definition failing :: "string \<Rightarrow> proc_result" where
  "failing out = \<lparr>pr_start_err = None, pr_exit = 1, pr_chunks = [(Stdout, ''ffmpeg ''), (Stderr, out)],
                  pr_written = None\<rparr>"

definition world_fail :: "string \<Rightarrow> world" where
  "world_fail out = world0\<lparr>w_run := (\<lambda>c. failing out)\<rparr>"

definition disk0 :: "string \<Rightarrow> nat list option" where
  "disk0 = [''/tmp/empty.webp'' \<mapsto> [], ''/tmp/text.webp'' \<mapsto> [104, 105],
            ''/tmp/good.webp'' \<mapsto> [82, 73, 70, 70]]"

definition keep_request :: request where
  "keep_request =
     video_request\<lparr>rq_headers := (rq_headers video_request)(''Overwrite'' \<mapsto> ''false'')\<rparr>"

definition other_request :: request where
  \<comment> \<open>The header \<open>Overwrite\<close> with a value other than \<open>false\<close>.\<close>
  "other_request =
     video_request\<lparr>rq_headers := (rq_headers video_request)(''Overwrite'' \<mapsto> ''no'')\<rparr>"



section \<open>Facts about float64\<close>

text \<open>
  The rounding \<open>fl\<close> picks the exponent of its argument, keeps every number that has a
  53-bit significand, and moves any other number by at most half a unit in the last
  place.
\<close>

lemma pow2_powi: "pow2 e = 2 powi e"
  by (simp add: pow2_def power_int_def inverse_eq_divide power_divide)

lemma pow2_pos [simp]: "0 < pow2 e"
  by (simp add: pow2_powi)

lemma pow2_nonneg [simp]: "0 \<le> pow2 e"
  by (simp add: pow2_powi)

lemma pow2_nonzero [simp]: "pow2 e \<noteq> 0"
  by (simp add: pow2_powi)

lemma pow2_abs [simp]: "\<bar>pow2 e\<bar> = pow2 e"
  by (simp add: pow2_powi)

lemma pow2_add: "pow2 (a + b) = pow2 a * pow2 b"
  by (simp add: pow2_powi power_int_add)

lemma pow2_nat: "0 \<le> e \<Longrightarrow> pow2 e = 2 ^ nat e"
  by (simp add: pow2_def)

lemma pow2_mono: "a \<le> b \<Longrightarrow> pow2 a \<le> pow2 b"
  by (simp add: pow2_powi power_int_increasing)

lemma pow2_less_iff: "pow2 a < pow2 b \<longleftrightarrow> a < b"
  using power_int_strict_increasing [of a b "2::rat"] power_int_increasing [of b a "2::rat"]
  by (auto simp: pow2_powi not_less [symmetric])

lemma bit_length_nonneg: "0 \<le> bit_length n"
  by (induction n rule: bit_length.induct) (subst bit_length.simps, simp)

lemma bit_length_pos: "0 < n \<Longrightarrow> 0 < bit_length n"
  using bit_length_nonneg [of "n div 2"] by (subst bit_length.simps) simp

lemma bit_length_bounds:
  "0 < n \<Longrightarrow> 2 ^ nat (bit_length n - 1) \<le> n \<and> n < 2 ^ nat (bit_length n)"
proof (induction n rule: bit_length.induct)
  case (1 n)
  show ?case
  proof (cases "n div 2 = 0")
    case True
    with 1(2) have "n = 1" by presburger
    then show ?thesis
      by (simp add: bit_length.simps [of 1] bit_length.simps [of 0])
  next
    case False
    with 1(2) have p: "0 < n div 2" by presburger
    from 1(1) 1(2) p
    have ih: "2 ^ nat (bit_length (n div 2) - 1) \<le> n div 2"
             "n div 2 < 2 ^ nat (bit_length (n div 2))"
      by simp_all
    have b: "bit_length n = 1 + bit_length (n div 2)"
      using 1(2) by (subst bit_length.simps) simp
    have bp: "0 < bit_length (n div 2)"
      using p by (rule bit_length_pos)
    have e1: "(2::int) ^ nat (bit_length n - 1) = 2 * 2 ^ nat (bit_length (n div 2) - 1)"
      using bp by (simp add: b flip: power_Suc)
    have e2: "(2::int) ^ nat (bit_length n) = 2 * 2 ^ nat (bit_length (n div 2))"
      using bp by (simp add: b nat_add_distrib)
    show ?thesis
      using ih e1 e2 by presburger
  qed
qed

lemma ilog2_bounds:
  assumes "0 < a"
  shows "pow2 (ilog2 a) \<le> a \<and> a < pow2 (ilog2 a + 1)"
proof (cases "1 \<le> a")
  case True
  let ?n = "\<lfloor>a\<rfloor>"
  have n: "0 < ?n" using True by simp
  from bit_length_bounds [OF n]
  have b: "2 ^ nat (bit_length ?n - 1) \<le> ?n" "?n < 2 ^ nat (bit_length ?n)"
    by simp_all
  have bp: "0 < bit_length ?n" using n by (rule bit_length_pos)
  have "of_int (2 ^ nat (bit_length ?n - 1)) \<le> (of_int ?n :: rat)"
    using b(1) of_int_le_iff by blast
  also have "\<dots> \<le> a" by simp
  finally have lo: "pow2 (bit_length ?n - 1) \<le> a"
    using bp by (simp add: pow2_nat)
  have "?n + 1 \<le> 2 ^ nat (bit_length ?n)" using b(2) by simp
  then have "(of_int (?n + 1) :: rat) \<le> of_int (2 ^ nat (bit_length ?n))"
    using of_int_le_iff by blast
  moreover have "a < of_int (?n + 1)" by linarith
  ultimately have hi: "a < pow2 (bit_length ?n)"
    using bp by (simp add: pow2_nat)
  show ?thesis
    using True lo hi by (simp add: ilog2_def)
next
  case False
  then have a1: "a < 1" by simp
  let ?n = "\<lceil>1 / a\<rceil>"
  let ?c = "bit_length (?n - 1)"
  have r: "1 < 1 / a" using assms a1 by simp
  then have n: "0 < ?n - 1" by linarith
  from bit_length_bounds [OF n]
  have b: "2 ^ nat (?c - 1) \<le> ?n - 1" "?n - 1 < 2 ^ nat ?c"
    by simp_all
  have cp: "0 < ?c" using n by (rule bit_length_pos)
  have "(of_int (?n - 1) :: rat) < 1 / a" by linarith
  moreover have "(of_int (2 ^ nat (?c - 1)) :: rat) \<le> of_int (?n - 1)"
    using b(1) of_int_le_iff by blast
  ultimately have "of_int (2 ^ nat (?c - 1)) < 1 / a"
    by linarith
  then have "pow2 (?c - 1) < 1 / a"
    using cp by (simp add: pow2_nat)
  then have "a * pow2 (?c - 1) < 1"
    using assms by (simp add: field_simps)
  moreover have "pow2 (- ?c + 1) * pow2 (?c - 1) = 1"
    by (simp flip: pow2_add) (simp add: pow2_def)
  ultimately have hi: "a < pow2 (- ?c + 1)"
    by (metis mult_less_cancel_right_pos pow2_pos)
  have "?n \<le> 2 ^ nat ?c" using b(2) by simp
  then have "(of_int ?n :: rat) \<le> of_int (2 ^ nat ?c)"
    using of_int_le_iff by blast
  moreover have "1 / a \<le> of_int ?n" by linarith
  ultimately have "1 / a \<le> of_int (2 ^ nat ?c)"
    by linarith
  then have "1 / a \<le> pow2 ?c"
    using cp by (simp add: pow2_nat)
  then have "1 \<le> a * pow2 ?c"
    using assms by (simp add: field_simps)
  moreover have "pow2 (- ?c) * pow2 ?c = 1"
    by (simp flip: pow2_add) (simp add: pow2_def)
  ultimately have lo: "pow2 (- ?c) \<le> a"
    by (metis mult_le_cancel_right_pos pow2_pos)
  show ?thesis
    using False lo hi by (simp add: ilog2_def)
qed

lemma ilog2_unique:
  assumes "pow2 k \<le> a" and "a < pow2 (k + 1)"
  shows "ilog2 a = k"
proof -
  have a: "0 < a" using assms(1) pow2_pos [of k] by linarith
  from ilog2_bounds [OF a]
  have b: "pow2 (ilog2 a) \<le> a" "a < pow2 (ilog2 a + 1)" by simp_all
  have "pow2 k < pow2 (ilog2 a + 1)" using assms(1) b(2) by linarith
  then have 1: "k < ilog2 a + 1" by (simp add: pow2_less_iff)
  have "pow2 (ilog2 a) < pow2 (k + 1)" using assms(2) b(1) by linarith
  then have 2: "ilog2 a < k + 1" by (simp add: pow2_less_iff)
  from 1 2 show ?thesis by simp
qed

lemma round_half_even_of_int [simp]: "round_half_even (of_int m) = m"
  by (simp add: round_half_even_def)

lemma round_half_even_error: "\<bar>of_int (round_half_even x) - x\<bar> \<le> 1 / 2"
proof -
  have "of_int \<lfloor>x\<rfloor> \<le> x" "x < of_int \<lfloor>x\<rfloor> + 1" by linarith+
  then show ?thesis
    by (auto simp: round_half_even_def Let_def abs_le_iff)
qed

text \<open>A number with a 53-bit significand is a \<open>float64\<close>: rounding leaves it as it is.\<close>

lemma fl_representable:
  assumes "2 ^ 52 \<le> \<bar>m\<bar>" and "\<bar>m\<bar> < 2 ^ 53"
  shows "fl (of_int m * pow2 e) = of_int m * pow2 e"
proof -
  let ?x = "of_int m * pow2 e :: rat"
  have m0: "m \<noteq> 0" using assms(1) by auto
  have ax: "\<bar>?x\<bar> = of_int \<bar>m\<bar> * pow2 e"
    by (simp add: abs_mult)
  have "(2 ^ 52 :: rat) \<le> of_int \<bar>m\<bar>"
    using assms(1) by (metis of_int_le_iff of_int_numeral of_int_power)
  then have "pow2 52 * pow2 e \<le> of_int \<bar>m\<bar> * pow2 e"
    by (intro mult_right_mono) (simp_all add: pow2_nat)
  then have lo: "pow2 (52 + e) \<le> \<bar>?x\<bar>"
    by (simp add: ax pow2_add)
  have "of_int \<bar>m\<bar> < (2 ^ 53 :: rat)"
    using assms(2) by (metis of_int_less_iff of_int_numeral of_int_power)
  then have "of_int \<bar>m\<bar> * pow2 e < pow2 53 * pow2 e"
    by (intro mult_strict_right_mono) (simp_all add: pow2_nat)
  then have hi: "\<bar>?x\<bar> < pow2 (52 + e + 1)"
    by (simp add: ax pow2_add [of 53 e, symmetric])
  have k: "ilog2 \<bar>?x\<bar> = 52 + e"
    using lo hi by (rule ilog2_unique)
  have q: "\<bar>?x\<bar> / pow2 e = of_int \<bar>m\<bar>"
    by (simp add: ax)
  have x0: "?x \<noteq> 0" using m0 pow2_pos [of e] by simp
  have s: "(if ?x < 0 then - 1 else 1) * (of_int \<bar>m\<bar> :: rat) = of_int m"
    using pow2_pos [of e] by (auto simp: mult_less_0_iff zero_less_mult_iff abs_if not_less)
  have "fl ?x = (if ?x < 0 then - 1 else 1) * of_int (round_half_even (\<bar>?x\<bar> / pow2 e)) * pow2 e"
    using x0 by (simp only: fl_def Let_def k) simp
  also have "\<dots> = (if ?x < 0 then - 1 else 1) * of_int \<bar>m\<bar> * pow2 e"
    by (simp only: q round_half_even_of_int)
  also have "\<dots> = ?x"
    by (simp only: s)
  finally show ?thesis .
qed

text \<open>Rounding moves a number by at most half a unit in the last place.\<close>

lemma fl_error:
  assumes "x \<noteq> 0"
  shows "\<bar>fl x - x\<bar> \<le> pow2 (ilog2 \<bar>x\<bar> - 52) / 2"
proof -
  let ?e = "ilog2 \<bar>x\<bar> - 52"
  let ?m = "round_half_even (\<bar>x\<bar> / pow2 ?e)"
  have f: "fl x = (if x < 0 then - 1 else 1) * of_int ?m * pow2 ?e"
    using assms by (simp add: fl_def Let_def)
  have x: "x = (if x < 0 then - 1 else 1) * (\<bar>x\<bar> / pow2 ?e) * pow2 ?e"
    by simp
  have "fl x - x = (if x < 0 then - 1 else 1) * (of_int ?m - \<bar>x\<bar> / pow2 ?e) * pow2 ?e"
    by (subst f, subst (2) x) (simp add: algebra_simps)
  then have "\<bar>fl x - x\<bar> = \<bar>of_int ?m - \<bar>x\<bar> / pow2 ?e\<bar> * pow2 ?e"
    by (simp add: abs_mult)
  also have "\<dots> \<le> (1 / 2) * pow2 ?e"
    using round_half_even_error [of "\<bar>x\<bar> / pow2 ?e"]
    by (intro mult_right_mono) simp_all
  finally show ?thesis by simp
qed

section \<open>Facts about the steps of a run\<close>

lemma trace_emit [simp]: "trace (emit e s) = trace s @ [e]"
  by (simp add: emit_def)

lemma files_emit [simp]: "files (emit e s) = files s"
  by (simp add: emit_def)

lemma trace_write_output [simp]: "trace (write_output p r s) = trace s"
  by (simp add: write_output_def split: option.split)

lemma runs_append [simp]: "runs (a @ b) = runs a @ runs b"
  by (simp add: runs_def)

lemma runs_Nil [simp]: "runs [] = []"
  by (simp add: runs_def)

lemma runs_Cons [simp]: "runs (e # t) = run_cmd e @ runs t"
  by (simp add: runs_def)

lemma extractVideoCover_fst:
  "fst (extractVideoCover W ctx v p s) = snd (CombinedOutput (w_run W (cover_cmd v p)))"
  by (simp add: extractVideoCover_def Let_def split: prod.split option.split)

lemma extractVideoCover_trace:
  "trace (snd (extractVideoCover W ctx v p s)) =
     trace s @ EvRun ctx (cover_cmd v p) #
       (case snd (CombinedOutput (w_run W (cover_cmd v p))) of
          None \<Rightarrow> []
        | Some e \<Rightarrow> [EvLog (LogCoverOutput (fst (CombinedOutput (w_run W (cover_cmd v p)))))])"
  by (simp add: extractVideoCover_def Let_def split: prod.split option.split)

lemma getVideoDuration_trace:
  "trace (snd (getVideoDuration W ctx v s)) = trace s @ [EvRun ctx (probe_cmd v)]"
  by (simp add: getVideoDuration_def Let_def split: prod.split option.split sum.split)

lemma getVideoDuration_files:
  "files (snd (getVideoDuration W ctx v s)) = files s"
  by (simp add: getVideoDuration_def Let_def split: prod.split option.split sum.split)

lemma getVideoDuration_fst:
  "fst (getVideoDuration W ctx v s) = fst (getVideoDuration W ctx' v s')"
  by (simp add: getVideoDuration_def Let_def split: prod.split option.split sum.split)

lemma extractFrame_fst:
  "fst (extractVideoFrameAtPercentage W ctx v p pc s) =
     (case fst (getVideoDuration W ctx v s) of
        Inl e \<Rightarrow> Some (ErrDuration (err_text e))
      | Inr d \<Rightarrow> snd (CombinedOutput (w_run W (frame_cmd (formatTime (seekTime d pc)) v p))))"
  by (simp add: extractVideoFrameAtPercentage_def Let_def split: prod.split option.split sum.split)

lemma extractFrame_trace:
  "trace (snd (extractVideoFrameAtPercentage W ctx v p pc s)) =
     trace s @ EvRun ctx (probe_cmd v) #
     (case fst (getVideoDuration W ctx v s) of
        Inl e \<Rightarrow> []
      | Inr d \<Rightarrow>
          EvRun ctx (frame_cmd (formatTime (seekTime d pc)) v p) #
          (case snd (CombinedOutput (w_run W (frame_cmd (formatTime (seekTime d pc)) v p))) of
             None \<Rightarrow> []
           | Some e \<Rightarrow>
               [EvLog (LogFrameOutput
                  (fst (CombinedOutput (w_run W (frame_cmd (formatTime (seekTime d pc)) v p)))))]))"
  apply (simp add: extractVideoFrameAtPercentage_def Let_def split: prod.split option.split sum.split)
  apply (auto simp: getVideoDuration_def Let_def split: prod.splits option.splits sum.splits)
  done

lemmas cover_simps = extractVideoCover_fst extractVideoCover_trace
lemmas frame_simps = extractFrame_fst extractFrame_trace

lemma extractThumbnail_fst:
  "fst (extractThumbnail W ctx v p s) =
     (snd (CombinedOutput (w_run W (cover_cmd v p))) = None \<or>
      (\<exists>d. fst (getVideoDuration W ctx v s) = Inr d \<and>
           snd (CombinedOutput (w_run W (frame_cmd (formatTime (seekTime d 3)) v p))) = None))"
proof (cases "snd (CombinedOutput (w_run W (cover_cmd v p)))")
  case None
  then show ?thesis
    by (simp add: extractThumbnail_def case_prod_beta cover_simps)
next
  case (Some e)
  let ?s1 = "emit (EvLog (LogCoverFailed e)) (snd (extractVideoCover W ctx v p s))"
  have d: "fst (getVideoDuration W ctx v ?s1) = fst (getVideoDuration W ctx v s)"
    by (rule getVideoDuration_fst)
  show ?thesis
    using Some d
    by (auto simp: extractThumbnail_def case_prod_beta cover_simps frame_simps
             split: option.splits sum.splits)
qed


lemma validate_fst:
  "fst (validateWebPFile W p s) =
     (case local_file W OpenValidate p s of
        Inl e \<Rightarrow> Some (ErrOpenFile e)
      | Inr bs \<Rightarrow>
          (case w_fault W StatValidate of
             Some e \<Rightarrow> Some (ErrStatFile e)
           | None \<Rightarrow> if bs = [] then Some ErrEmptyFile
                     else (case w_decode W bs of Some e \<Rightarrow> Some (ErrDecode e) | None \<Rightarrow> None)))"
  by (simp add: validateWebPFile_def Let_def split: sum.split option.split)

lemma validate_trace:
  "trace (snd (validateWebPFile W p s)) =
     trace s @ (case local_file W OpenValidate p s of Inl e \<Rightarrow> [] | Inr bs \<Rightarrow> [EvOpen p, EvClose p])"
  by (simp add: validateWebPFile_def Let_def split: sum.split option.split)

lemma validate_files: "files (snd (validateWebPFile W p s)) = files s"
  by (simp add: validateWebPFile_def Let_def split: sum.split option.split)

lemma MakeDir_files: "files (snd (MakeDir W ctx d s)) = files s"
  by (simp add: MakeDir_def Let_def split: option.split)

lemma MakeDir_trace:
  "trace (snd (MakeDir W ctx d s)) =
     trace s @ EvMakeDir ctx d #
       (case w_make_dir W d of None \<Rightarrow> [] | Some e \<Rightarrow> [EvLog (LogMakeDirError d e)])"
  by (simp add: MakeDir_def Let_def split: option.split)

lemma MakeDir_fst: "fst (MakeDir W ctx d s) = w_make_dir W d"
  by (simp add: MakeDir_def Let_def split: option.split)

lemma publish_files: "files (publishThumbnail W ctx p d n tp s) = files s"
  by (auto simp: publishThumbnail_def case_prod_beta Let_def validate_files MakeDir_files
           split: option.split sum.split)

lemma publish_invalid:
  assumes "fst (validateWebPFile W p s) = Some e"
  shows "trace (publishThumbnail W ctx p d n tp s) =
           trace (snd (validateWebPFile W p s)) @ [EvLog (LogInvalidWebP e)]"
  using assms by (simp add: publishThumbnail_def case_prod_beta)

lemma publish_valid:
  assumes "fst (validateWebPFile W p s) = None"
  shows "\<exists>post. trace (publishThumbnail W ctx p d n tp s) =
                  trace (snd (validateWebPFile W p s)) @ EvMakeDir ctx d # post \<and>
                (\<forall>c' d' st. EvPutDirectly c' d' st \<in> set post \<longrightarrow>
                   (\<exists>bs. files s p = Some bs \<and> fs_reader st = TempFileReader p bs))
                \<and> \<not> list_ex is_create post \<and> \<not> list_ex is_run post"
  using assms
  by (auto simp: publishThumbnail_def case_prod_beta Let_def MakeDir_trace MakeDir_fst
                 MakeDir_files validate_files local_file_def
           split: option.split sum.split)

lemma extractThumbnail_trace:
  "\<exists>evs. trace (snd (extractThumbnail W ctx v p s)) = trace s @ evs \<and>
         list_all (\<lambda>e. is_run e \<or> is_log e) evs"
  by (auto simp: extractThumbnail_def case_prod_beta cover_simps frame_simps
           split: option.split sum.split)

lemma publish_trace:
  "\<exists>evs. trace (publishThumbnail W ctx p d n tp s) = trace s @ evs \<and>
         \<not> list_ex is_create evs \<and> \<not> list_ex is_run evs"
proof (cases "fst (validateWebPFile W p s)")
  case None
  from publish_valid [OF None, of ctx d n tp] show ?thesis
    by (auto simp: validate_trace split: sum.splits)
next
  case (Some e)
  from publish_invalid [OF Some, of ctx d n tp] show ?thesis
    by (auto simp: validate_trace split: sum.splits)
qed

lemma checkFileExists_trace:
  "trace (snd (checkFileExists W ctx tp s)) = trace s @ [EvGet ctx tp]"
  by (simp add: checkFileExists_def Let_def split: prod.split option.split)

lemma checkFileExists_files:
  "files (snd (checkFileExists W ctx tp s)) = files s"
  by (simp add: checkFileExists_def Let_def split: prod.split option.split)

lemma checkFileExists_fst:
  "fst (checkFileExists W ctx tp s) =
     (case w_get W tp of
        (ob, Some e) \<Rightarrow> if is_not_exist e then Inr False else Inl e
      | (ob, None) \<Rightarrow> Inr (ob \<noteq> None))"
  by (simp add: checkFileExists_def Let_def split: prod.split option.split)

lemma removeTemp_trace:
  "trace (removeTemp W p s) =
     trace s @ EvRemove p #
       (case local_file W RemoveTemp p s of
          Inl e \<Rightarrow> [EvLog (LogRemoveTempFailed e)]
        | Inr bs \<Rightarrow> [])"
  by (simp add: removeTemp_def Let_def local_file_def split: sum.split option.split)

lemma removeTemp_files:
  "w_fault W RemoveTemp = None \<Longrightarrow> files (removeTemp W p s) p = None"
  by (simp add: removeTemp_def Let_def local_file_def split: sum.split option.split)

lemma checkFileExists_snd: "snd (checkFileExists W ctx tp s) = emit (EvGet ctx tp) s"
  by (simp add: checkFileExists_def Let_def split: prod.split option.split)

lemma generate_staged:
  assumes "w_get W fp = (Some fo, None)" and "obj_path fo \<noteq> []"
    and "fst (checkFileExists W ctx (targetThumbPath_of fp) s0) = Inr False"
    and "w_create_temp W = Inr p"
  shows "generateVideoThumbnail W ctx fp usr (start F) =
           removeTemp W p (after_staging W ctx fp (obj_path fo) p (staged ctx fp p F))"
proof -
  have c: "fst (checkFileExists W ctx (targetThumbPath_of fp) (emit (EvGet ctx fp) (start F))) =
             Inr False"
    using assms(3) by (simp add: checkFileExists_fst)
  have s: "emit (EvCreateTemp p)
             (snd (checkFileExists W ctx (targetThumbPath_of fp) (emit (EvGet ctx fp) (start F)))
                \<lparr>files := (files (snd (checkFileExists W ctx (targetThumbPath_of fp)
                                        (emit (EvGet ctx fp) (start F)))))(p \<mapsto> [])\<rparr>) =
           staged ctx fp p F"
    by (simp add: checkFileExists_snd emit_def start_def staged_def)
  show ?thesis
    using assms(1,2,4) c
    by (simp add: generateVideoThumbnail_def Let_def case_prod_beta s after_staging_def)
qed

lemma generate_early:
  assumes "\<not> (\<exists>fo p. w_get W fp = (Some fo, None) \<and> obj_path fo \<noteq> [] \<and>
                fst (checkFileExists W ctx (targetThumbPath_of fp) s0) = Inr False \<and>
                w_create_temp W = Inr p)"
  shows "files (generateVideoThumbnail W ctx fp usr (start F)) = F \<and>
         list_all (\<lambda>e. \<not> is_create e \<and> \<not> is_run e \<and> \<not> is_write e)
           (trace (generateVideoThumbnail W ctx fp usr (start F)))"
proof -
  have c: "fst (checkFileExists W ctx (targetThumbPath_of fp) (emit (EvGet ctx fp) (start F))) =
             fst (checkFileExists W ctx (targetThumbPath_of fp) s0)"
    by (simp add: checkFileExists_fst)
  obtain ob er where g: "w_get W fp = (ob, er)"
    by (cases "w_get W fp")
  show ?thesis
    using assms g c
    by (cases er; cases ob; cases "w_create_temp W";
        cases "fst (checkFileExists W ctx (targetThumbPath_of fp) s0)")
       (auto simp: generateVideoThumbnail_def Let_def case_prod_beta checkFileExists_snd
                   start_def)
qed

lemma after_staging_trace:
  "\<exists>evs. trace (after_staging W ctx fp v p s3) = trace s3 @ evs \<and> \<not> list_ex is_create evs"
proof -
  obtain e1 where e1: "trace (snd (extractThumbnail W ctx v p s3)) = trace s3 @ e1"
      "list_all (\<lambda>e. is_run e \<or> is_log e) e1"
    using extractThumbnail_trace by blast
  have n1: "\<not> list_ex is_create e1"
    using e1(2) by (induction e1) (auto elim: is_create.elims)
  show ?thesis
  proof (cases "fst (extractThumbnail W ctx v p s3)")
    case False
    then show ?thesis using e1(1) n1 by (simp add: after_staging_def)
  next
    case True
    obtain e2 where e2:
      "trace (publishThumbnail W ctx p (targetThumbDir_of fp) (targetThumbName_of fp)
                (targetThumbPath_of fp) (snd (extractThumbnail W ctx v p s3))) =
         trace (snd (extractThumbnail W ctx v p s3)) @ e2"
      "\<not> list_ex is_create e2"
      using publish_trace by blast
    show ?thesis using True e1(1) n1 e2 by (simp add: after_staging_def)
  qed
qed

lemma effects_append [simp]: "effects (a @ b) = effects a @ effects b"
  by (simp add: effects_def)

text \<open>
  Claim C4. Once a run has made its temporary file, the removal of that file is the last
  thing the run does, whatever happened in between (the extraction failed, the
  validation failed, the directory could not be made, the upload failed, or all went
  well); only the log line of a failed removal can follow. Unless the operating system
  refuses the removal, the file is gone from the local disk when the run ends.
\<close>

theorem staged_file_removed:
  assumes "EvCreateTemp p \<in> set (trace (generateVideoThumbnail W ctx fp usr (start F)))"
  shows "(\<exists>pre. effects (trace (generateVideoThumbnail W ctx fp usr (start F))) = pre @ [EvRemove p])
         \<and> (w_fault W RemoveTemp = None \<longrightarrow>
              files (generateVideoThumbnail W ctx fp usr (start F)) p = None)"
proof (cases "\<exists>fo p'. w_get W fp = (Some fo, None) \<and> obj_path fo \<noteq> [] \<and>
                fst (checkFileExists W ctx (targetThumbPath_of fp) (start F)) = Inr False \<and>
                w_create_temp W = Inr p'")
  case False
  from generate_early [OF False, of usr F]
  have "list_all (\<lambda>e. \<not> is_create e) (trace (generateVideoThumbnail W ctx fp usr (start F)))"
    by (simp add: list_all_iff)
  with assms show ?thesis by (auto simp: list_all_iff)
next
  case True
  then obtain fo p' where h: "w_get W fp = (Some fo, None)" "obj_path fo \<noteq> []"
      "fst (checkFileExists W ctx (targetThumbPath_of fp) (start F)) = Inr False"
      "w_create_temp W = Inr p'"
    by blast
  let ?a = "after_staging W ctx fp (obj_path fo) p' (staged ctx fp p' F)"
  have G: "generateVideoThumbnail W ctx fp usr (start F) = removeTemp W p' ?a"
    by (rule generate_staged [OF h])
  obtain evs where a: "trace ?a = trace (staged ctx fp p' F) @ evs" "\<not> list_ex is_create evs"
    using after_staging_trace by blast
  have "EvCreateTemp p \<in> set (trace ?a)"
    using assms by (auto simp: G removeTemp_trace split: sum.splits)
  then have "p = p'"
    using a by (auto simp: staged_def list_ex_iff)
  moreover have "\<exists>pre. effects (trace (removeTemp W p' ?a)) = pre @ [EvRemove p']"
    by (auto simp: removeTemp_trace effects_def split: sum.splits)
  ultimately show ?thesis
    by (simp add: G removeTemp_files)
qed

lemma run_or_log_no_write: "list_all (\<lambda>e. is_run e \<or> is_log e) evs \<Longrightarrow> filter is_write evs = []"
  by (induction evs) (auto elim: is_run.elims is_log.elims)

lemma filter_none: "filter P xs = [] \<Longrightarrow> x \<in> set xs \<Longrightarrow> \<not> P x"
  by (auto simp: filter_empty_conv)

lemma validate_no_write:
  "filter is_write (trace (snd (validateWebPFile W p s))) = filter is_write (trace s)"
  by (simp add: validate_trace split: sum.split)


lemma removeTemp_set:
  "e \<in> set (trace (removeTemp W p s)) \<Longrightarrow> is_write e \<Longrightarrow> e \<in> set (trace s)"
  by (auto simp: removeTemp_trace split: sum.splits)

lemma staged_no_write: "filter is_write (trace (staged ctx fp p F)) = []"
  by (simp add: staged_def)

lemma publish_invalid_no_write:
  assumes "fst (validateWebPFile W p s) \<noteq> None"
  shows "filter is_write (trace (publishThumbnail W ctx p d n tp s)) = filter is_write (trace s)"
proof -
  from assms obtain e where e: "fst (validateWebPFile W p s) = Some e" by blast
  show ?thesis
    by (simp add: publish_invalid [OF e] validate_no_write)
qed

text \<open>
  Claim C5. A run writes to the storage (it makes the thumbnail directory, it uploads the
  temporary file) only after the validator has accepted the temporary file: the trace
  splits at a point where \<open>validateWebPFile\<close> returned no error and no write had
  happened, every write comes after it, and the upload reads the very bytes the
  validator saw. When the validator returns an error, the rest of the routine writes
  nothing.
\<close>

theorem writes_only_after_validation:
  "(e \<in> set (trace (generateVideoThumbnail W ctx fp usr (start F))) \<and> is_write e \<longrightarrow>
      (\<exists>p s1 post.
          EvCreateTemp p \<in> set (trace s1) \<and>
          fst (validateWebPFile W p s1) = None \<and>
          trace (generateVideoThumbnail W ctx fp usr (start F)) =
            trace (snd (validateWebPFile W p s1)) @ post \<and>
          filter is_write (trace (snd (validateWebPFile W p s1))) = [] \<and>
          e \<in> set post \<and>
          (\<forall>c d st. e = EvPutDirectly c d st \<longrightarrow>
             (\<exists>bs. files s1 p = Some bs \<and> fs_reader st = TempFileReader p bs))))
   \<and> (fst (validateWebPFile W p' s') \<noteq> None \<longrightarrow>
        filter is_write (trace (publishThumbnail W ctx p' d' n' tp' s')) =
          filter is_write (trace s'))"
proof (intro conjI impI)
  assume "fst (validateWebPFile W p' s') \<noteq> None"
  then show "filter is_write (trace (publishThumbnail W ctx p' d' n' tp' s')) =
               filter is_write (trace s')"
    by (rule publish_invalid_no_write)
next
  let ?G = "generateVideoThumbnail W ctx fp usr (start F)"
  assume a: "e \<in> set (trace ?G) \<and> is_write e"
  have st: "\<exists>fo p. w_get W fp = (Some fo, None) \<and> obj_path fo \<noteq> [] \<and>
                fst (checkFileExists W ctx (targetThumbPath_of fp) (start F)) = Inr False \<and>
                w_create_temp W = Inr p"
  proof (rule ccontr)
    assume n: "\<not> ?thesis"
    from generate_early [OF n, of usr F] a show False
      by (auto simp: list_all_iff)
  qed
  then obtain fo p where h: "w_get W fp = (Some fo, None)" "obj_path fo \<noteq> []"
      "fst (checkFileExists W ctx (targetThumbPath_of fp) (start F)) = Inr False"
      "w_create_temp W = Inr p"
    by blast
  let ?S3 = "staged ctx fp p F"
  let ?v = "obj_path fo"
  let ?s4 = "snd (extractThumbnail W ctx ?v p ?S3)"
  let ?a = "after_staging W ctx fp ?v p ?S3"
  have G: "?G = removeTemp W p ?a"
    by (rule generate_staged [OF h])
  obtain e1 where e1: "trace ?s4 = trace ?S3 @ e1" "list_all (\<lambda>e. is_run e \<or> is_log e) e1"
    using extractThumbnail_trace by blast
  have w4: "filter is_write (trace ?s4) = []"
    using e1 by (simp add: staged_no_write run_or_log_no_write)
  have ea: "e \<in> set (trace ?a)"
    using a G removeTemp_set by metis
  have ok: "fst (extractThumbnail W ctx ?v p ?S3)"
  proof (rule ccontr)
    assume "\<not> ?thesis"
    then have "trace ?a = trace ?s4" by (simp add: after_staging_def)
    with ea a w4 show False
      by (auto dest: filter_none)
  qed
  then have A: "?a = publishThumbnail W ctx p (targetThumbDir_of fp) (targetThumbName_of fp)
                       (targetThumbPath_of fp) ?s4"
    by (simp add: after_staging_def)
  have val: "fst (validateWebPFile W p ?s4) = None"
  proof (rule ccontr)
    assume n: "\<not> ?thesis"
    from publish_invalid_no_write [OF n] A w4
    have "filter is_write (trace ?a) = []" by simp
    with ea a show False
      by (auto dest: filter_none)
  qed
  from publish_valid [OF val, of ctx "targetThumbDir_of fp" "targetThumbName_of fp"
      "targetThumbPath_of fp"]
  obtain post where post:
    "trace ?a = trace (snd (validateWebPFile W p ?s4)) @ EvMakeDir ctx (targetThumbDir_of fp) # post"
    "\<forall>c' d' st. EvPutDirectly c' d' st \<in> set post \<longrightarrow>
        (\<exists>bs. files ?s4 p = Some bs \<and> fs_reader st = TempFileReader p bs)"
    using A by auto
  have vw: "filter is_write (trace (snd (validateWebPFile W p ?s4))) = []"
    by (simp add: validate_no_write w4)
  have ein: "e \<in> set (EvMakeDir ctx (targetThumbDir_of fp) # post)"
  proof -
    have "e \<notin> set (trace (snd (validateWebPFile W p ?s4)))"
      using vw a by (auto dest: filter_none)
    with ea post(1) show ?thesis by auto
  qed
  obtain tl where tl: "trace ?G = trace ?a @ tl"
    by (simp add: G removeTemp_trace)
  have c: "EvCreateTemp p \<in> set (trace ?s4)"
    unfolding e1(1) by (simp add: staged_def)
  have rd: "\<forall>c d st. e = EvPutDirectly c d st \<longrightarrow>
             (\<exists>bs. files ?s4 p = Some bs \<and> fs_reader st = TempFileReader p bs)"
    using ein post(2) by auto
  show "\<exists>p s1 post.
          EvCreateTemp p \<in> set (trace s1) \<and>
          fst (validateWebPFile W p s1) = None \<and>
          trace ?G = trace (snd (validateWebPFile W p s1)) @ post \<and>
          filter is_write (trace (snd (validateWebPFile W p s1))) = [] \<and>
          e \<in> set post \<and>
          (\<forall>c d st. e = EvPutDirectly c d st \<longrightarrow>
             (\<exists>bs. files s1 p = Some bs \<and> fs_reader st = TempFileReader p bs))"
    apply (rule exI [of _ p])
    apply (rule exI [of _ ?s4])
    apply (rule exI [of _ "EvMakeDir ctx (targetThumbDir_of fp) # post @ tl"])
    using c val vw ein rd tl post(1)
    apply auto
    done
qed

theorem staged_file_removed_witness:
  "EvCreateTemp tmp0 \<in> set (trace (run_in world0)) \<and>
   EvLog (LogSuccess tmp0 ''/videos/.thumbnails/movie.webp'') \<in> set (trace (run_in world0)) \<and>
   (\<exists>pre. effects (trace (run_in world0)) = pre @ [EvRemove tmp0]) \<and>
   files (run_in world0) tmp0 = None \<and>
   EvCreateTemp tmp0 \<in> set (trace (run_in (world_fail ''boom''))) \<and>
   EvLog (LogFrameFailed (ErrDuration ''exit status 1'')) \<in> set (trace (run_in (world_fail ''boom''))) \<and>
   (\<exists>pre. effects (trace (run_in (world_fail ''boom''))) = pre @ [EvRemove tmp0]) \<and>
   files (run_in (world_fail ''boom'')) tmp0 = None \<and>
   EvCreateTemp tmp0 \<in> set (trace (run_in world_invalid)) \<and>
   EvLog (LogInvalidWebP (ErrDecode (ErrOther ''image: unknown format'')))
     \<in> set (trace (run_in world_invalid)) \<and>
   (\<exists>pre. effects (trace (run_in world_invalid)) = pre @ [EvRemove tmp0]) \<and>
   files (run_in world_invalid) tmp0 = None \<and>
   EvCreateTemp tmp0 \<in> set (trace (run_in world_nodir)) \<and>
   EvLog (LogMakeThumbDirFailed (ErrOther ''permission denied'')) \<in> set (trace (run_in world_nodir)) \<and>
   (\<exists>pre. effects (trace (run_in world_nodir)) = pre @ [EvRemove tmp0]) \<and>
   files (run_in world_nodir) tmp0 = None \<and>
   EvCreateTemp tmp0 \<in> set (trace (run_in world_noput)) \<and>
   EvLog (LogUploadFailed (ErrOther ''storage is full'')) \<in> set (trace (run_in world_noput)) \<and>
   (\<exists>pre. effects (trace (run_in world_noput)) = pre @ [EvRemove tmp0]) \<and>
   files (run_in world_noput) tmp0 = None"
proof -
  have c: "EvCreateTemp tmp0 \<in> set (trace (run_in world0))"
      "EvCreateTemp tmp0 \<in> set (trace (run_in (world_fail ''boom'')))"
      "EvCreateTemp tmp0 \<in> set (trace (run_in world_invalid))"
      "EvCreateTemp tmp0 \<in> set (trace (run_in world_nodir))"
      "EvCreateTemp tmp0 \<in> set (trace (run_in world_noput))"
    by code_simp+
  have l: "EvLog (LogSuccess tmp0 ''/videos/.thumbnails/movie.webp'') \<in> set (trace (run_in world0))"
      "EvLog (LogFrameFailed (ErrDuration ''exit status 1''))
         \<in> set (trace (run_in (world_fail ''boom'')))"
      "EvLog (LogInvalidWebP (ErrDecode (ErrOther ''image: unknown format'')))
         \<in> set (trace (run_in world_invalid))"
      "EvLog (LogMakeThumbDirFailed (ErrOther ''permission denied''))
         \<in> set (trace (run_in world_nodir))"
      "EvLog (LogUploadFailed (ErrOther ''storage is full'')) \<in> set (trace (run_in world_noput))"
    by code_simp+
  have f: "w_fault world0 RemoveTemp = None"
      "w_fault (world_fail ''boom'') RemoveTemp = None"
      "w_fault world_invalid RemoveTemp = None"
      "w_fault world_nodir RemoveTemp = None"
      "w_fault world_noput RemoveTemp = None"
    by code_simp+
  note r = staged_file_removed [where ctx = Background and fp = "''/videos/movie.mp4''"
      and usr = "User ''alice''" and F = Map.empty and p = tmp0, folded run_in_def]
  from r [OF c(1)] r [OF c(2)] r [OF c(3)] r [OF c(4)] r [OF c(5)] c l f
  show ?thesis
    by simp
qed

theorem writes_only_after_validation_witness:
  "EvPutDirectly Background ''/videos/.thumbnails'' thumb_stream \<in> set (trace (run_in world0)) \<and>
   (\<exists>p s1 post.
      EvCreateTemp p \<in> set (trace s1) \<and>
      fst (validateWebPFile world0 p s1) = None \<and>
      trace (run_in world0) = trace (snd (validateWebPFile world0 p s1)) @ post \<and>
      filter is_write (trace (snd (validateWebPFile world0 p s1))) = [] \<and>
      EvPutDirectly Background ''/videos/.thumbnails'' thumb_stream \<in> set post \<and>
      (\<exists>bs. files s1 p = Some bs \<and> fs_reader thumb_stream = TempFileReader p bs)) \<and>
   fst (validateWebPFile world0 tmp0 (start [tmp0 \<mapsto> []])) = Some ErrEmptyFile \<and>
   filter is_write (trace (publishThumbnail world0 Background tmp0 ''/videos/.thumbnails''
      ''movie.webp'' ''/videos/.thumbnails/movie.webp'' (start [tmp0 \<mapsto> []]))) = []"
proof -
  let ?e = "EvPutDirectly Background ''/videos/.thumbnails'' thumb_stream"
  have h: "?e \<in> set (trace (generateVideoThumbnail world0 Background
             ''/videos/movie.mp4'' (User ''alice'') (start Map.empty)))"
    by code_simp
  have w: "is_write ?e" by simp
  have v: "fst (validateWebPFile world0 tmp0 (start [tmp0 \<mapsto> []])) = Some ErrEmptyFile"
    by code_simp
  have t: "trace (start [tmp0 \<mapsto> []]) = []"
    by (simp add: start_def)
  from writes_only_after_validation [where e = ?e and W = world0 and ctx = Background
      and fp = "''/videos/movie.mp4''" and usr = "User ''alice''" and F = Map.empty
      and p' = tmp0 and s' = "start [tmp0 \<mapsto> []]" and d' = "''/videos/.thumbnails''"
      and n' = "''movie.webp''" and tp' = "''/videos/.thumbnails/movie.webp''"]
    h w v t
  show ?thesis
    unfolding run_in_def by fastforce
qed

lemma run_cmd_no_run: "\<not> is_run e \<Longrightarrow> run_cmd e = []"
  by (cases e) simp_all

lemma no_run_runs: "list_all (\<lambda>e. \<not> is_run e) t \<Longrightarrow> runs t = []"
  by (induction t) (simp_all add: run_cmd_no_run)

text \<open>
  Claim C3. When the thumbnail of a video is already stored (the object at
  \<open>.thumbnails/<base name>.webp\<close> beside the video), the routine runs no command, makes
  no temporary file, writes nothing to the storage and leaves the local disk as it was.
  When the video itself is found, all the routine does is to look up the video, look up
  the thumbnail and log that the thumbnail exists.
\<close>

theorem existing_thumbnail_is_skipped:
  assumes "w_get W (targetThumbPath_of fp) = (Some t, None)"
  shows "runs (trace (generateVideoThumbnail W ctx fp usr (start F))) = [] \<and>
         filter is_create (trace (generateVideoThumbnail W ctx fp usr (start F))) = [] \<and>
         filter is_write (trace (generateVideoThumbnail W ctx fp usr (start F))) = [] \<and>
         files (generateVideoThumbnail W ctx fp usr (start F)) = F \<and>
         (\<forall>fo. w_get W fp = (Some fo, None) \<and> obj_path fo \<noteq> [] \<longrightarrow>
            trace (generateVideoThumbnail W ctx fp usr (start F)) =
              [EvGet ctx fp, EvGet ctx (targetThumbPath_of fp),
               EvLog (LogThumbExists (targetThumbPath_of fp))])"
proof -
  let ?G = "generateVideoThumbnail W ctx fp usr (start F)"
  have c: "fst (checkFileExists W ctx (targetThumbPath_of fp) s) = Inr True" for s
    using assms by (simp add: checkFileExists_fst)
  have n: "\<not> (\<exists>fo p. w_get W fp = (Some fo, None) \<and> obj_path fo \<noteq> [] \<and>
                fst (checkFileExists W ctx (targetThumbPath_of fp) (start F)) = Inr False \<and>
                w_create_temp W = Inr p)"
    by (simp add: c)
  from generate_early [OF n, of usr F]
  have f: "files ?G = F"
    and a: "list_all (\<lambda>e. \<not> is_create e \<and> \<not> is_run e \<and> \<not> is_write e) (trace ?G)"
    by simp_all
  have r: "runs (trace ?G) = []"
    using a by (intro no_run_runs) (simp add: list_all_iff)
  have cr: "filter is_create (trace ?G) = []"
    using a by (simp add: filter_empty_conv list_all_iff)
  have w: "filter is_write (trace ?G) = []"
    using a by (simp add: filter_empty_conv list_all_iff)
  have tr: "trace ?G = [EvGet ctx fp, EvGet ctx (targetThumbPath_of fp),
               EvLog (LogThumbExists (targetThumbPath_of fp))]"
    if "w_get W fp = (Some fo, None)" and "obj_path fo \<noteq> []" for fo
    using that c
    by (simp add: generateVideoThumbnail_def Let_def case_prod_beta checkFileExists_snd start_def)
  show ?thesis
    using f r cr w tr by blast
qed

theorem existing_thumbnail_is_skipped_witness:
  "targetThumbPath_of ''/videos/movie.mp4'' = ''/videos/.thumbnails/movie.webp'' \<and>
   w_get world_thumb (targetThumbPath_of ''/videos/movie.mp4'') = (Some thumb_obj, None) \<and>
   runs (trace (generateVideoThumbnail world_thumb Background ''/videos/movie.mp4''
                  (User ''alice'') (start Map.empty))) = [] \<and>
   filter is_write (trace (generateVideoThumbnail world_thumb Background ''/videos/movie.mp4''
                  (User ''alice'') (start Map.empty))) = [] \<and>
   trace (generateVideoThumbnail world_thumb Background ''/videos/movie.mp4''
                  (User ''alice'') (start Map.empty)) =
     [EvGet Background ''/videos/movie.mp4'',
      EvGet Background ''/videos/.thumbnails/movie.webp'',
      EvLog (LogThumbExists ''/videos/.thumbnails/movie.webp'')]"
proof -
  have p: "targetThumbPath_of ''/videos/movie.mp4'' = ''/videos/.thumbnails/movie.webp''"
    by code_simp
  have g: "w_get world_thumb (targetThumbPath_of ''/videos/movie.mp4'') = (Some thumb_obj, None)"
    by (simp add: p world_thumb_def)
  have s: "w_get world_thumb ''/videos/movie.mp4'' = (Some video_obj, None)"
    by (simp add: world_thumb_def)
  have v: "obj_path video_obj \<noteq> []"
    by (simp add: video_obj_def)
  from existing_thumbnail_is_skipped [OF g, of Background "User ''alice''" Map.empty] s v p g
  show ?thesis
    by simp
qed

lemma extractThumbnail_fst_state:
  "fst (extractThumbnail W ctx v p s) = fst (extractThumbnail W ctx v p s')"
  unfolding extractThumbnail_fst
  using getVideoDuration_fst [of W ctx v s ctx s'] by simp











text \<open>
  Claim C6. The validator rejects an empty file and a file the decoder rejects. When the
  operating system lets it open and stat the file, it returns the empty-file error for
  an empty file, the decoding error for bytes the decoder rejects, and no error for
  bytes the decoder accepts. It leaves the local disk as it was, and it does nothing
  but open the file and close it.
\<close>

theorem validator_contract:
  "(files s p = Some [] \<longrightarrow> fst (validateWebPFile W p s) \<noteq> None)
   \<and> (files s p = Some bs \<and> w_decode W bs \<noteq> None \<longrightarrow> fst (validateWebPFile W p s) \<noteq> None)
   \<and> (files s p = Some bs \<and> w_fault W OpenValidate = None \<and> w_fault W StatValidate = None \<longrightarrow>
        fst (validateWebPFile W p s) =
          (if bs = [] then Some ErrEmptyFile
           else case w_decode W bs of Some e \<Rightarrow> Some (ErrDecode e) | None \<Rightarrow> None))
   \<and> files (snd (validateWebPFile W p s)) = files s
   \<and> (trace (snd (validateWebPFile W p s)) = trace s \<or>
       trace (snd (validateWebPFile W p s)) = trace s @ [EvOpen p, EvClose p])"
  by (auto simp: validate_fst validate_trace validate_files local_file_def
           split: option.splits sum.splits)

theorem validator_contract_witness:
  "files (start disk0) ''/tmp/empty.webp'' = Some [] \<and>
   fst (validateWebPFile world0 ''/tmp/empty.webp'' (start disk0)) = Some ErrEmptyFile \<and>
   files (start disk0) ''/tmp/text.webp'' = Some [104, 105] \<and>
   w_decode world0 [104, 105] = Some (ErrOther ''image: unknown format'') \<and>
   fst (validateWebPFile world0 ''/tmp/text.webp'' (start disk0)) =
     Some (ErrDecode (ErrOther ''image: unknown format'')) \<and>
   files (start disk0) ''/tmp/good.webp'' = Some [82, 73, 70, 70] \<and>
   w_decode world0 [82, 73, 70, 70] = None \<and>
   fst (validateWebPFile world0 ''/tmp/good.webp'' (start disk0)) = None \<and>
   files (snd (validateWebPFile world0 ''/tmp/good.webp'' (start disk0))) = disk0"
proof -
  have f: "w_fault world0 OpenValidate = None" "w_fault world0 StatValidate = None"
    by (simp_all add: world0_def)
  have e: "files (start disk0) ''/tmp/empty.webp'' = Some []"
    by (simp add: start_def disk0_def)
  have t: "files (start disk0) ''/tmp/text.webp'' = Some [104, 105]"
    by (simp add: start_def disk0_def)
  have g: "files (start disk0) ''/tmp/good.webp'' = Some [82, 73, 70, 70]"
    by (simp add: start_def disk0_def)
  have dt: "w_decode world0 [104, 105] = Some (ErrOther ''image: unknown format'')"
    by (simp add: world0_def)
  have dg: "w_decode world0 [82, 73, 70, 70] = None"
    by (simp add: world0_def)
  have s: "files (start disk0) = disk0"
    by (simp add: start_def)
  from validator_contract [of "start disk0" "''/tmp/empty.webp''" world0 "[]"] e f
  have 1: "fst (validateWebPFile world0 ''/tmp/empty.webp'' (start disk0)) = Some ErrEmptyFile"
    by simp
  from validator_contract [of "start disk0" "''/tmp/text.webp''" world0 "[104, 105]"] t f dt
  have 2: "fst (validateWebPFile world0 ''/tmp/text.webp'' (start disk0)) =
     Some (ErrDecode (ErrOther ''image: unknown format''))"
    by simp
  from validator_contract [of "start disk0" "''/tmp/good.webp''" world0 "[82, 73, 70, 70]"] g f dg s
  have 3: "fst (validateWebPFile world0 ''/tmp/good.webp'' (start disk0)) = None \<and>
           files (snd (validateWebPFile world0 ''/tmp/good.webp'' (start disk0))) = disk0"
    by simp
  show ?thesis
    using 1 2 3 e t g dt dg by blast
qed


lemma proc_err_ok: "(proc_err r x = None) = (\<not> failed r)"
  by (simp add: proc_err_def failed_def split: option.split)




text \<open>
  Claim C7 says that 3725.5 seconds at an offset of 0 percent are formatted as
  \<open>01:02:05.000\<close>. Neither the duration nor its offset at 0 percent gives that string.
\<close>

theorem formatTime_test_vector_counterexample:
  "formatTime (7451 / 2) \<noteq> ''01:02:05.000'' \<and>
   formatTime (seekTime (7451 / 2) 0) \<noteq> ''01:02:05.000''"
  by code_simp

text \<open>
  Claim C7, amended. 3725.5 seconds are formatted as \<open>01:02:05.500\<close>; the offset at 0
  percent of that duration is 0 seconds, \<open>00:00:00.000\<close>; the offset at 3 percent of
  100 seconds is 3.0 seconds, \<open>00:00:03.000\<close>.
\<close>

theorem formatTime_test_vectors:
  "formatTime (7451 / 2) = ''01:02:05.500'' \<and>
   seekTime (7451 / 2) 0 = 0 \<and>
   formatTime (seekTime (7451 / 2) 0) = ''00:00:00.000'' \<and>
   seekTime 100 3 = 3 \<and>
   formatTime (seekTime 100 3) = ''00:00:03.000''"
  by code_simp

text \<open>
  Claim C8. When the header \<open>Overwrite\<close> is \<open>false\<close> and an object is stored at the
  resolved path, both handlers look the path up, answer \<open>file exists\<close> with status 403
  and return: nothing reads the request body but the deferred cleanup, which drains and
  closes it.
\<close>

theorem no_overwrite_of_existing_object:
  assumes "w_unescape W (GetHeader c ''File-Path'') = Inr path0"
    and "w_join_path W (rq_user c) path0 = Inr path"
    and "GetHeader c ''Overwrite'' = ''false''"
    and "fst (w_get W path) = Some ob"
  shows "FsStream W c =
           [EvGet RequestContext path, EvResp (ErrorStrResp ''file exists'' 403),
            EvDrainBody, EvCloseBody]
         \<and> FsForm W c =
           [EvGet RequestContext path, EvResp (ErrorStrResp ''file exists'' 403),
            EvDrainBody, EvCloseBody]"
  using assms by (simp add: FsStream_def FsForm_def transport_cleanup_def Let_def)

theorem no_overwrite_of_existing_object_witness:
  "w_unescape world0 (GetHeader keep_request ''File-Path'') = Inr ''/videos/movie.mp4'' \<and>
   w_join_path world0 (rq_user keep_request) ''/videos/movie.mp4'' = Inr ''/videos/movie.mp4'' \<and>
   GetHeader keep_request ''Overwrite'' = ''false'' \<and>
   fst (w_get world0 ''/videos/movie.mp4'') = Some video_obj \<and>
   FsStream world0 keep_request =
     [EvGet RequestContext ''/videos/movie.mp4'', EvResp (ErrorStrResp ''file exists'' 403),
      EvDrainBody, EvCloseBody] \<and>
   FsForm world0 keep_request =
     [EvGet RequestContext ''/videos/movie.mp4'', EvResp (ErrorStrResp ''file exists'' 403),
      EvDrainBody, EvCloseBody]"
proof -
  have 1: "w_unescape world0 (GetHeader keep_request ''File-Path'') = Inr ''/videos/movie.mp4''"
    by code_simp
  have 2: "w_join_path world0 (rq_user keep_request) ''/videos/movie.mp4'' =
             Inr ''/videos/movie.mp4''"
    by code_simp
  have 3: "GetHeader keep_request ''Overwrite'' = ''false''"
    by code_simp
  have 4: "fst (w_get world0 ''/videos/movie.mp4'') = Some video_obj"
    by (simp add: world0_def)
  from no_overwrite_of_existing_object [OF 1 2 3 4] 1 2 3 4 show ?thesis
    by simp
qed

lemma success_resp_neq [simp]:
  "success_resp t \<noteq> ErrorStrResp m n" "ErrorStrResp m n \<noteq> success_resp t"
  by (simp_all add: success_resp_def split: option.split)

lemma GetHeader_overwrite:
  "(GetHeader c ''Overwrite'' \<noteq> ''false'') = (rq_headers c ''Overwrite'' \<noteq> Some ''false'')"
  by (simp add: GetHeader_def split: option.split)

lemma FsStream_upload_events:
  "list_all (\<lambda>e. not_exists_check e) (FsStream_upload W c path)"
  by (cases "ParseInt (if GetHeader c ''Content-Length'' = [] then ''0''
                       else GetHeader c ''Content-Length'')")
     (simp_all add: FsStream_upload_def not_exists_check_def Let_def case_prod_beta
        split: option.split)

lemma FsForm_upload_events:
  "list_all (\<lambda>e. not_exists_check e \<and> \<not> is_go e) (FsForm_upload W c path)"
proof (cases "w_no_upload W path")
  case (Inl e)
  then show ?thesis
    by (simp add: FsForm_upload_def not_exists_check_def)
next
  case n: (Inr noUpload)
  show ?thesis
  proof (cases "rq_form_file c")
    case (Inl e)
    with n show ?thesis
      by (simp add: FsForm_upload_def not_exists_check_def Let_def)
  next
    case (Inr ff)
    with n show ?thesis
      by (simp add: FsForm_upload_def not_exists_check_def Let_def case_prod_beta
            split: option.split)
  qed
qed

lemma FsStream_overwrite:
  assumes "GetHeader c ''Overwrite'' \<noteq> ''false''"
  shows "list_all not_exists_check (FsStream W c)"
proof (cases "w_unescape W (GetHeader c ''File-Path'')")
  case (Inl e)
  then show ?thesis
    by (simp add: FsStream_def transport_cleanup_def not_exists_check_def)
next
  case u: (Inr path0)
  show ?thesis
  proof (cases "w_join_path W (rq_user c) path0")
    case (Inl e)
    with u show ?thesis
      by (simp add: FsStream_def transport_cleanup_def not_exists_check_def)
  next
    case (Inr path)
    have "list_all not_exists_check [EvDrainBody, EvCloseBody]"
      by (simp add: not_exists_check_def)
    with u Inr assms FsStream_upload_events [of W c path] show ?thesis
      by (simp add: FsStream_def transport_cleanup_def)
  qed
qed

lemma FsForm_overwrite:
  assumes "GetHeader c ''Overwrite'' \<noteq> ''false''"
  shows "list_all not_exists_check (FsForm W c)"
proof (cases "w_unescape W (GetHeader c ''File-Path'')")
  case (Inl e)
  then show ?thesis
    by (simp add: FsForm_def transport_cleanup_def not_exists_check_def)
next
  case u: (Inr path0)
  show ?thesis
  proof (cases "w_join_path W (rq_user c) path0")
    case (Inl e)
    with u show ?thesis
      by (simp add: FsForm_def transport_cleanup_def not_exists_check_def)
  next
    case (Inr path)
    have "list_all not_exists_check [EvDrainBody, EvCloseBody]"
      by (simp add: not_exists_check_def)
    moreover have "list_all not_exists_check (FsForm_upload W c path)"
      using FsForm_upload_events [of W c path] by (simp add: list_all_iff)
    ultimately show ?thesis
      using u Inr assms by (simp add: FsForm_def transport_cleanup_def)
  qed
qed

lemma FsStream_no_overwrite:
  assumes "GetHeader c ''Overwrite'' = ''false''"
    and "w_unescape W (GetHeader c ''File-Path'') = Inr path0"
    and "w_join_path W (rq_user c) path0 = Inr path"
  shows "\<exists>t. FsStream W c = EvGet RequestContext path # t"
  using assms by (simp add: FsStream_def transport_cleanup_def)

lemma FsForm_no_overwrite:
  assumes "GetHeader c ''Overwrite'' = ''false''"
    and "w_unescape W (GetHeader c ''File-Path'') = Inr path0"
    and "w_join_path W (rq_user c) path0 = Inr path"
  shows "\<exists>t. FsForm W c = EvGet RequestContext path # t"
  using assms by (simp add: FsForm_def transport_cleanup_def)

lemma FsForm_never_schedules: "list_all (\<lambda>e. \<not> is_go e) (FsForm W c)"
proof (cases "w_unescape W (GetHeader c ''File-Path'')")
  case (Inl e)
  then show ?thesis
    by (simp add: FsForm_def transport_cleanup_def)
next
  case u: (Inr path0)
  show ?thesis
  proof (cases "w_join_path W (rq_user c) path0")
    case (Inl e)
    with u show ?thesis
      by (simp add: FsForm_def transport_cleanup_def)
  next
    case (Inr path)
    have "list_all (\<lambda>e. \<not> is_go e) (FsForm_upload W c path)"
      using FsForm_upload_events [of W c path] by (simp add: list_all_iff)
    with u Inr show ?thesis
      by (simp add: FsForm_def transport_cleanup_def)
  qed
qed

text \<open>
  Claim C10. The handlers take overwrite as disabled exactly when the header
  \<open>Overwrite\<close> is there with the value \<open>false\<close>. With any other value, or without the
  header, neither handler looks the destination up or answers that the file exists.
  With the value \<open>false\<close>, the lookup of the resolved path is the first thing both
  handlers do.
\<close>

theorem overwrite_is_the_default:
  "((GetHeader c ''Overwrite'' \<noteq> ''false'') = (rq_headers c ''Overwrite'' \<noteq> Some ''false''))
   \<and> (rq_headers c ''Overwrite'' \<noteq> Some ''false'' \<longrightarrow>
        list_all not_exists_check (FsStream W c) \<and> list_all not_exists_check (FsForm W c))
   \<and> (rq_headers c ''Overwrite'' = Some ''false'' \<and>
       w_unescape W (GetHeader c ''File-Path'') = Inr path0 \<and>
       w_join_path W (rq_user c) path0 = Inr path \<longrightarrow>
        (\<exists>t. FsStream W c = EvGet RequestContext path # t) \<and>
        (\<exists>t. FsForm W c = EvGet RequestContext path # t))"
  using GetHeader_overwrite [of c] FsStream_overwrite [of c W] FsForm_overwrite [of c W]
    FsStream_no_overwrite [of c W path0 path] FsForm_no_overwrite [of c W path0 path]
  by blast

theorem overwrite_is_the_default_witness:
  "rq_headers video_request ''Overwrite'' = None \<and>
   list_all not_exists_check (FsStream world0 video_request) \<and>
   list_all not_exists_check (FsForm world0 video_request) \<and>
   rq_headers other_request ''Overwrite'' = Some ''no'' \<and>
   list_all not_exists_check (FsStream world0 other_request) \<and>
   list_all not_exists_check (FsForm world0 other_request) \<and>
   rq_headers keep_request ''Overwrite'' = Some ''false'' \<and>
   (\<exists>t. FsStream world0 keep_request = EvGet RequestContext ''/videos/movie.mp4'' # t) \<and>
   (\<exists>t. FsForm world0 keep_request = EvGet RequestContext ''/videos/movie.mp4'' # t)"
proof -
  have a: "rq_headers video_request ''Overwrite'' = None"
    by (simp add: video_request_def)
  have b: "rq_headers other_request ''Overwrite'' = Some ''no''"
    by (simp add: other_request_def)
  have c: "rq_headers keep_request ''Overwrite'' = Some ''false''"
    by (simp add: keep_request_def)
  have u: "w_unescape world0 (GetHeader keep_request ''File-Path'') = Inr ''/videos/movie.mp4''"
    by code_simp
  have j: "w_join_path world0 (rq_user keep_request) ''/videos/movie.mp4'' =
             Inr ''/videos/movie.mp4''"
    by code_simp
  from overwrite_is_the_default [of video_request world0] a
  have 1: "list_all not_exists_check (FsStream world0 video_request) \<and>
           list_all not_exists_check (FsForm world0 video_request)"
    by simp
  from overwrite_is_the_default [of other_request world0] b
  have 2: "list_all not_exists_check (FsStream world0 other_request) \<and>
           list_all not_exists_check (FsForm world0 other_request)"
    by simp
  from overwrite_is_the_default [of keep_request world0 "''/videos/movie.mp4''"
      "''/videos/movie.mp4''"] c u j
  have 3: "(\<exists>t. FsStream world0 keep_request = EvGet RequestContext ''/videos/movie.mp4'' # t) \<and>
           (\<exists>t. FsForm world0 keep_request = EvGet RequestContext ''/videos/movie.mp4'' # t)"
    by simp
  show ?thesis
    using a b c 1 2 3 by blast
qed

text \<open>
  Claim C1. The same upload of a video, accepted and written, through both handlers:
  \<open>FsStream\<close> starts \<open>generateVideoThumbnail\<close> with the background context, and
  \<open>FsForm\<close> answers with success without starting it.
\<close>

theorem form_upload_of_video_schedules_nothing:
  "FsStream world0 video_request =
     [EvPutDirectly RequestContext ''/videos/''
        \<lparr>fs_name = ''movie.mp4'', fs_size = 4, fs_modified = 1700000000000, fs_hashes = [],
         fs_reader = RequestBody, fs_mimetype = ''video/mp4'', fs_as_task = False\<rparr>,
      EvGo Background ''/videos/movie.mp4'' (User ''alice''),
      EvResp SuccessResp, EvDrainBody, EvCloseBody]
   \<and> FsForm world0 video_request =
     [EvGetStorage ''/videos/movie.mp4'', EvFormFile, EvOpenForm,
      EvPutDirectly RequestContext ''/videos/''
        \<lparr>fs_name = ''movie.mp4'', fs_size = 4, fs_modified = 1700000000000, fs_hashes = [],
         fs_reader = FormReader, fs_mimetype = ''video/mp4'', fs_as_task = False\<rparr>,
      EvResp SuccessResp, EvCloseForm, EvDrainBody, EvCloseBody]"
  by code_simp

end
